theory Spec2Isabelle
  imports Main "HOL-Library.Char_ord" "HOL-Library.List_Lexorder"
begin

section \<open>Values, errors and responses\<close>

text \<open>
  The module \<^verbatim>\<open>src/lib/supabase.ts\<close> is a data-access layer: every exported function
  builds one or two requests with the query builder of the store's client, awaits the
  response \<^verbatim>\<open>{ data, error, count }\<close> and returns, logs or throws. JavaScript numbers
  are taken as integers (nothing here computes with fractions), strings as lists of
  8-bit characters compared by character code, \<^verbatim>\<open>undefined\<close> and \<^verbatim>\<open>null\<close> as \<open>None\<close>.
\<close>

type_synonym number = int

datatype val = Null | Text string | Number number

record pg_error =
  code :: string
  message :: string

record 'a response =
  data :: "'a option"
  error :: "pg_error option"
  count :: "nat option"

definition failed :: "pg_error \<Rightarrow> 'a response" where
  "failed e = \<lparr>data = None, error = Some e, count = None\<rparr>"

definition served :: "'a \<Rightarrow> nat option \<Rightarrow> 'a response" where
  "served d n = \<lparr>data = Some d, error = None, count = n\<rparr>"

text \<open>What a function of the module does besides touching the store: it returns or it throws.\<close>

datatype 'a outcome = Returned 'a | Thrown pg_error

type_synonym log_line = "string \<times> pg_error"

section \<open>The parameter types of the module\<close>

text \<open>The argument of \<^verbatim>\<open>saveStockQuery\<close>; an optional property that is left out is \<open>None\<close>.\<close>

record stock_query_data =
  emiten :: string
  sector :: "string option"
  from_date :: "string option"
  to_date :: "string option"
  bandar :: "string option"
  barang_bandar :: "number option"
  rata_rata_bandar :: "number option"
  harga :: "number option"
  ara :: "number option"
  arb :: "number option"
  fraksi :: "number option"
  total_bid :: "number option"
  total_offer :: "number option"
  total_papan :: "number option"
  rata_rata_bid_ofer :: "number option"
  a_col :: "number option"
  p_col :: "number option"
  target_realistis :: "number option"
  target_max :: "number option"

text \<open>The argument of \<^verbatim>\<open>saveWatchlistAnalysis\<close>: both dates are required here.\<close>

record watchlist_analysis =
  from_date :: string
  to_date :: string
  emiten :: string
  sector :: "string option"
  bandar :: "string option"
  barang_bandar :: "number option"
  rata_rata_bandar :: "number option"
  harga :: "number option"
  ara :: "number option"
  arb :: "number option"
  fraksi :: "number option"
  total_bid :: "number option"
  total_offer :: "number option"
  total_papan :: "number option"
  rata_rata_bid_ofer :: "number option"
  a_col :: "number option"
  p_col :: "number option"
  target_realistis :: "number option"
  target_max :: "number option"
  status :: "string option"
  error_message :: "string option"

datatype sort_order = Asc | Desc

text \<open>
  The argument of \<^verbatim>\<open>getWatchlistAnalysisHistory\<close>. The argument itself is optional; the
  function reads it only through \<^verbatim>\<open>filters?.x\<close>, so a call without it is the call with
  every field \<open>None\<close>.
\<close>

record filters =
  emiten :: "string option"
  sector :: "string option"
  fromDate :: "string option"
  toDate :: "string option"
  status :: "string option"
  limit :: "number option"
  offset :: "number option"
  sortBy :: "string option"
  sortOrder :: "sort_order option"

section \<open>The two tables\<close>

text \<open>
  Modelled from the spec: the declarations of the tables \<^verbatim>\<open>stock_queries\<close> and
  \<^verbatim>\<open>session\<close> are not in the source. The columns are the ones section 6 of the
  specification lists. \<open>from_date\<close> and \<open>emiten\<close> form the natural key with its uniqueness
  constraint and are taken as NOT NULL, \<open>id\<close> is handed out by the store, every other
  column is nullable with default NULL.
\<close>

record stock_query =
  from_date :: string
  emiten :: string
  sector :: "string option"
  to_date :: "string option"
  bandar :: "string option"
  barang_bandar :: "number option"
  rata_rata_bandar :: "number option"
  harga :: "number option"
  ara :: "number option"
  arb :: "number option"
  fraksi :: "number option"
  total_bid :: "number option"
  total_offer :: "number option"
  total_papan :: "number option"
  rata_rata_bid_ofer :: "number option"
  a_col :: "number option"
  p_col :: "number option"
  target_realistis :: "number option"
  target_max :: "number option"
  status :: "string option"
  error_message :: "string option"
  real_harga :: "number option"
  row_id :: number

record session_entry =
  key :: string
  session_value :: string
  updated_at :: string

record store =
  stock_queries :: "stock_query list"
  session :: "session_entry list"
  next_id :: number

definition text_or_null :: "string option \<Rightarrow> val" where
  "text_or_null x = (case x of None \<Rightarrow> Null | Some s \<Rightarrow> Text s)"

definition number_or_null :: "number option \<Rightarrow> val" where
  "number_or_null x = (case x of None \<Rightarrow> Null | Some n \<Rightarrow> Number n)"

text \<open>A column name gives the cell of a row, or nothing when the table has no such column.\<close>

definition stock_queries_column :: "string \<Rightarrow> (stock_query \<Rightarrow> val) option" where
  "stock_queries_column = map_of
     [(''from_date'', \<lambda>r. Text (from_date r)),
      (''emiten'', \<lambda>r. Text (emiten r)),
      (''sector'', \<lambda>r. text_or_null (sector r)),
      (''to_date'', \<lambda>r. text_or_null (to_date r)),
      (''bandar'', \<lambda>r. text_or_null (bandar r)),
      (''barang_bandar'', \<lambda>r. number_or_null (barang_bandar r)),
      (''rata_rata_bandar'', \<lambda>r. number_or_null (rata_rata_bandar r)),
      (''harga'', \<lambda>r. number_or_null (harga r)),
      (''ara'', \<lambda>r. number_or_null (ara r)),
      (''arb'', \<lambda>r. number_or_null (arb r)),
      (''fraksi'', \<lambda>r. number_or_null (fraksi r)),
      (''total_bid'', \<lambda>r. number_or_null (total_bid r)),
      (''total_offer'', \<lambda>r. number_or_null (total_offer r)),
      (''total_papan'', \<lambda>r. number_or_null (total_papan r)),
      (''rata_rata_bid_ofer'', \<lambda>r. number_or_null (rata_rata_bid_ofer r)),
      (''a'', \<lambda>r. number_or_null (a_col r)),
      (''p'', \<lambda>r. number_or_null (p_col r)),
      (''target_realistis'', \<lambda>r. number_or_null (target_realistis r)),
      (''target_max'', \<lambda>r. number_or_null (target_max r)),
      (''status'', \<lambda>r. text_or_null (status r)),
      (''error_message'', \<lambda>r. text_or_null (error_message r)),
      (''real_harga'', \<lambda>r. number_or_null (real_harga r)),
      (''id'', \<lambda>r. Number (row_id r))]"

definition session_column :: "string \<Rightarrow> (session_entry \<Rightarrow> val) option" where
  "session_column = map_of
     [(''key'', \<lambda>e. Text (key e)),
      (''value'', \<lambda>e. Text (session_value e)),
      (''updated_at'', \<lambda>e. Text (updated_at e))]"

section \<open>The query builder and the store that answers it\<close>

text \<open>
  The client and the store behind it are not code of this repository. They are modelled
  by what the source relies on: a builder collects filters, sort keys and a row window;
  the store keeps the rows that satisfy every filter, sorts them by the keys in the order
  given, counts them, and then cuts the window. The store of the model refuses a request
  that names a column the table does not have, a negative limit or offset, and a record
  without \<open>from_date\<close>; a window beyond the last row is empty. Whatever else makes a
  request fail (network, permissions, limits of the service) is outside the program: each
  request takes the error the store reports for such a reason, if any, as the argument
  \<open>fault\<close>.
\<close>

datatype cond =
  In_list string "string list"
| Eq string val
| Gte string val
| Lte string val
| Lt string val

record query =
  conds :: "cond list"
  orders :: "(string \<times> bool) list"
  limit_param :: "number option"
  offset_param :: "number option"
  exact_count :: bool

definition q_select :: "bool \<Rightarrow> query" where
  "q_select cnt = \<lparr>conds = [], orders = [], limit_param = None, offset_param = None,
     exact_count = cnt\<rparr>"

definition q_filter :: "cond \<Rightarrow> query \<Rightarrow> query" where
  "q_filter c q = q\<lparr>conds := conds q @ [c]\<rparr>"

text \<open>\<^verbatim>\<open>.order(column, { ascending })\<close> appends a sort key after the ones already given.\<close>

definition q_order :: "string \<Rightarrow> bool \<Rightarrow> query \<Rightarrow> query" where
  "q_order c ascending q = q\<lparr>orders := orders q @ [(c, ascending)]\<rparr>"

definition q_limit :: "number \<Rightarrow> query \<Rightarrow> query" where
  "q_limit n q = q\<lparr>limit_param := Some n\<rparr>"

text \<open>\<^verbatim>\<open>.range(from, to)\<close> is inclusive: it sets the offset and overwrites the limit.\<close>

definition q_range :: "number \<Rightarrow> number \<Rightarrow> query \<Rightarrow> query" where
  "q_range from to q = q\<lparr>offset_param := Some from, limit_param := Some (to - from + 1)\<rparr>"

text \<open>Comparisons of a filter: a NULL cell satisfies none of them.\<close>

fun sql_eq :: "val \<Rightarrow> val \<Rightarrow> bool" where
  "sql_eq (Text x) (Text y) = (x = y)"
| "sql_eq (Number x) (Number y) = (x = y)"
| "sql_eq _ _ = False"

fun sql_le :: "val \<Rightarrow> val \<Rightarrow> bool" where
  "sql_le (Text x) (Text y) = (x \<le> y)"
| "sql_le (Number x) (Number y) = (x \<le> y)"
| "sql_le _ _ = False"

fun sql_lt :: "val \<Rightarrow> val \<Rightarrow> bool" where
  "sql_lt (Text x) (Text y) = (x < y)"
| "sql_lt (Number x) (Number y) = (x < y)"
| "sql_lt _ _ = False"

definition cell :: "(string \<Rightarrow> ('r \<Rightarrow> val) option) \<Rightarrow> string \<Rightarrow> 'r \<Rightarrow> val" where
  "cell col c r = (case col c of None \<Rightarrow> Null | Some get \<Rightarrow> get r)"

fun cond_column :: "cond \<Rightarrow> string" where
  "cond_column (In_list c vs) = c"
| "cond_column (Eq c v) = c"
| "cond_column (Gte c v) = c"
| "cond_column (Lte c v) = c"
| "cond_column (Lt c v) = c"

fun holds :: "(string \<Rightarrow> ('r \<Rightarrow> val) option) \<Rightarrow> cond \<Rightarrow> 'r \<Rightarrow> bool" where
  "holds col (In_list c vs) r = (\<exists>v \<in> set vs. sql_eq (cell col c r) (Text v))"
| "holds col (Eq c v) r = sql_eq (cell col c r) v"
| "holds col (Gte c v) r = sql_le v (cell col c r)"
| "holds col (Lte c v) r = sql_le (cell col c r) v"
| "holds col (Lt c v) r = sql_lt (cell col c r) v"

text \<open>The order of a sort key: numbers, then texts, NULL last when ascending.\<close>

fun val_le :: "val \<Rightarrow> val \<Rightarrow> bool" where
  "val_le x Null = True"
| "val_le Null y = False"
| "val_le (Number x) (Number y) = (x \<le> y)"
| "val_le (Number x) (Text y) = True"
| "val_le (Text x) (Number y) = False"
| "val_le (Text x) (Text y) = (x \<le> y)"

fun row_le :: "(string \<Rightarrow> ('r \<Rightarrow> val) option) \<Rightarrow> (string \<times> bool) list \<Rightarrow> 'r \<Rightarrow> 'r \<Rightarrow> bool" where
  "row_le col [] r1 r2 = True"
| "row_le col ((c, ascending) # ks) r1 r2 =
     (if cell col c r1 = cell col c r2 then row_le col ks r1 r2
      else if ascending then val_le (cell col c r1) (cell col c r2)
      else val_le (cell col c r2) (cell col c r1))"

fun insort_row :: "('r \<Rightarrow> 'r \<Rightarrow> bool) \<Rightarrow> 'r \<Rightarrow> 'r list \<Rightarrow> 'r list" where
  "insort_row le x [] = [x]"
| "insort_row le x (y # ys) = (if le x y then x # y # ys else y # insort_row le x ys)"

text \<open>
  Rows that tie on every sort key: the real store returns them in an order of its own
  choosing, which need not be the same in the next request. The model keeps them in the
  order of the table. The properties below are stated so that they hold for every such
  choice: they speak of a sorted arrangement of the selected rows, and compare the lists of
  two requests only where no two selected rows tie.
\<close>

definition sort_rows :: "('r \<Rightarrow> 'r \<Rightarrow> bool) \<Rightarrow> 'r list \<Rightarrow> 'r list" where
  "sort_rows le rs = foldr (insort_row le) rs []"

definition undefined_column :: pg_error where
  "undefined_column = \<lparr>code = ''42703'', message = ''column does not exist''\<rparr>"

definition invalid_row_count :: pg_error where
  "invalid_row_count = \<lparr>code = ''2201W'', message = ''LIMIT or OFFSET must not be negative''\<rparr>"

definition not_null_violation :: pg_error where
  "not_null_violation = \<lparr>code = ''23502'', message = ''null value in column violates not-null constraint''\<rparr>"

definition no_single_row :: pg_error where
  "no_single_row = \<lparr>code = ''PGRST116'', message = ''JSON object requested, multiple (or no) rows returned''\<rparr>"

definition negative :: "number option \<Rightarrow> bool" where
  "negative x = (case x of None \<Rightarrow> False | Some n \<Rightarrow> n < 0)"

definition matching :: "(string \<Rightarrow> ('r \<Rightarrow> val) option) \<Rightarrow> query \<Rightarrow> 'r list \<Rightarrow> 'r list" where
  "matching col q rows = filter (\<lambda>r. \<forall>c \<in> set (conds q). holds col c r) rows"

definition window :: "query \<Rightarrow> 'r list \<Rightarrow> 'r list" where
  "window q rows =
     (let skipped = (case offset_param q of None \<Rightarrow> rows | Some n \<Rightarrow> drop (nat n) rows)
      in case limit_param q of None \<Rightarrow> skipped | Some n \<Rightarrow> take (nat n) skipped)"

definition run_select ::
  "(string \<Rightarrow> ('r \<Rightarrow> val) option) \<Rightarrow> 'r list \<Rightarrow> pg_error option \<Rightarrow> query \<Rightarrow> 'r list response" where
  "run_select col rows fault q =
     (case fault of Some e \<Rightarrow> failed e
      | None \<Rightarrow>
        if \<exists>c \<in> set (map cond_column (conds q) @ map fst (orders q)). col c = None
        then failed undefined_column
        else if negative (limit_param q) \<or> negative (offset_param q)
        then failed invalid_row_count
        else served (window q (sort_rows (row_le col (orders q)) (matching col q rows)))
               (if exact_count q then Some (length (matching col q rows)) else None))"

text \<open>\<^verbatim>\<open>.single()\<close> asks for exactly one row as an object; any other number is an error.\<close>

definition q_single :: "'r list response \<Rightarrow> 'r response" where
  "q_single res =
     (case error res of Some e \<Rightarrow> failed e
      | None \<Rightarrow> (case data res of Some [r] \<Rightarrow> served r (count res) | _ \<Rightarrow> failed no_single_row))"

text \<open>\<^verbatim>\<open>.select('a, b')\<close> keeps the named columns of each returned row.\<close>

definition project :: "('r \<Rightarrow> 'a) \<Rightarrow> 'r list response \<Rightarrow> 'a list response" where
  "project f res = \<lparr>data = map_option (map f) (data res), error = error res, count = count res\<rparr>"

text \<open>\<^verbatim>\<open>.update(values).eq(...).select()\<close> changes the rows that satisfy the filters and returns them.\<close>

definition run_update ::
  "(string \<Rightarrow> ('r \<Rightarrow> val) option) \<Rightarrow> 'r list \<Rightarrow> pg_error option \<Rightarrow> cond list \<Rightarrow> ('r \<Rightarrow> 'r)
     \<Rightarrow> 'r list \<times> 'r list response" where
  "run_update col rows fault cs change =
     (case fault of Some e \<Rightarrow> (rows, failed e)
      | None \<Rightarrow>
        if \<exists>c \<in> set (map cond_column cs). col c = None then (rows, failed undefined_column)
        else (map (\<lambda>r. if \<forall>c \<in> set cs. holds col c r then change r else r) rows,
              served (map change (filter (\<lambda>r. \<forall>c \<in> set cs. holds col c r) rows)) None))"

text \<open>
  \<^verbatim>\<open>.upsert([row], { onConflict: 'from_date,emiten' }).select()\<close>: a row with the same key
  takes the columns the payload carries and keeps the others; without such a row a new one
  is inserted, with a fresh id and NULL in the columns the payload leaves out. A payload
  without \<open>from_date\<close> cannot be stored. \<open>put\<close> writes the payload's columns into a row.
\<close>

definition blank_row :: "number \<Rightarrow> string \<Rightarrow> string \<Rightarrow> stock_query" where
  "blank_row i d e =
     \<lparr>from_date = d, emiten = e, sector = None, to_date = None, bandar = None,
      barang_bandar = None, rata_rata_bandar = None, harga = None, ara = None, arb = None,
      fraksi = None, total_bid = None, total_offer = None, total_papan = None,
      rata_rata_bid_ofer = None, a_col = None, p_col = None, target_realistis = None,
      target_max = None, status = None, error_message = None, real_harga = None, row_id = i\<rparr>"

definition upsert_stock_queries ::
  "store \<Rightarrow> pg_error option \<Rightarrow> string option \<Rightarrow> string \<Rightarrow> (stock_query \<Rightarrow> stock_query)
     \<Rightarrow> store \<times> stock_query list response" where
  "upsert_stock_queries s fault date e put =
     (case fault of Some err \<Rightarrow> (s, failed err)
      | None \<Rightarrow>
        (case date of None \<Rightarrow> (s, failed not_null_violation)
         | Some d \<Rightarrow>
           if \<exists>r \<in> set (stock_queries s). from_date r = d \<and> emiten r = e
           then (s\<lparr>stock_queries :=
                     map (\<lambda>r. if from_date r = d \<and> emiten r = e then put r else r) (stock_queries s)\<rparr>,
                 served (map put (filter (\<lambda>r. from_date r = d \<and> emiten r = e) (stock_queries s))) None)
           else (s\<lparr>stock_queries := stock_queries s @ [put (blank_row (next_id s) d e)],
                    next_id := next_id s + 1\<rparr>,
                 served [put (blank_row (next_id s) d e)] None)))"

text \<open>\<^verbatim>\<open>.upsert({ key, value, updated_at }, { onConflict: 'key' }).select()\<close> on the session table.\<close>

definition upsert_session_table ::
  "store \<Rightarrow> pg_error option \<Rightarrow> session_entry \<Rightarrow> store \<times> session_entry list response" where
  "upsert_session_table s fault entry =
     (case fault of Some err \<Rightarrow> (s, failed err)
      | None \<Rightarrow>
        if \<exists>x \<in> set (session s). key x = key entry
        then (s\<lparr>session := map (\<lambda>x. if key x = key entry then entry else x) (session s)\<rparr>,
              served (map (\<lambda>x. entry) (filter (\<lambda>x. key x = key entry) (session s))) None)
        else (s\<lparr>session := session s @ [entry]\<rparr>, served [entry] None))"

section \<open>The functions of \<^verbatim>\<open>src/lib/supabase.ts\<close>\<close>

text \<open>
  A run of a function that writes or logs: how it ends, what it printed with
  \<^verbatim>\<open>console.error\<close>, and the store afterwards.
\<close>

record 'a run =
  outcome :: "'a outcome"
  console :: "log_line list"
  db :: store

definition keep :: "'a option \<Rightarrow> 'a option \<Rightarrow> 'a option" where
  "keep new old = (case new of None \<Rightarrow> old | Some v \<Rightarrow> Some v)"

definition put_stock_query_data :: "stock_query_data \<Rightarrow> string \<Rightarrow> stock_query \<Rightarrow> stock_query" where
  "put_stock_query_data d date r =
     r\<lparr>emiten := stock_query_data.emiten d,
       sector := keep (stock_query_data.sector d) (sector r),
       from_date := date,
       to_date := keep (stock_query_data.to_date d) (to_date r),
       bandar := keep (stock_query_data.bandar d) (bandar r),
       barang_bandar := keep (stock_query_data.barang_bandar d) (barang_bandar r),
       rata_rata_bandar := keep (stock_query_data.rata_rata_bandar d) (rata_rata_bandar r),
       harga := keep (stock_query_data.harga d) (harga r),
       ara := keep (stock_query_data.ara d) (ara r),
       arb := keep (stock_query_data.arb d) (arb r),
       fraksi := keep (stock_query_data.fraksi d) (fraksi r),
       total_bid := keep (stock_query_data.total_bid d) (total_bid r),
       total_offer := keep (stock_query_data.total_offer d) (total_offer r),
       total_papan := keep (stock_query_data.total_papan d) (total_papan r),
       rata_rata_bid_ofer := keep (stock_query_data.rata_rata_bid_ofer d) (rata_rata_bid_ofer r),
       a_col := keep (stock_query_data.a_col d) (a_col r),
       p_col := keep (stock_query_data.p_col d) (p_col r),
       target_realistis := keep (stock_query_data.target_realistis d) (target_realistis r),
       target_max := keep (stock_query_data.target_max d) (target_max r)\<rparr>"

definition saveStockQuery ::
  "store \<Rightarrow> pg_error option \<Rightarrow> stock_query_data \<Rightarrow> stock_query list option run" where
  "saveStockQuery s fault d =
     (let (s', res) = upsert_stock_queries s fault (stock_query_data.from_date d)
                        (stock_query_data.emiten d)
                        (case stock_query_data.from_date d of None \<Rightarrow> (\<lambda>r. r)
                         | Some date \<Rightarrow> put_stock_query_data d date)
      in case error res of
           Some e \<Rightarrow> \<lparr>outcome = Thrown e, console = [(''Error saving to Supabase:'', e)], db = s'\<rparr>
         | None \<Rightarrow> \<lparr>outcome = Returned (data res), console = [], db = s'\<rparr>)"

definition getSessionValue :: "store \<Rightarrow> pg_error option \<Rightarrow> string \<Rightarrow> string option" where
  "getSessionValue s fault k =
     (let res = q_single (project session_value
                  (run_select session_column (session s) fault
                     (q_filter (Eq ''key'' (Text k)) (q_select False))))
      in case error res of Some e \<Rightarrow> None
         | None \<Rightarrow> (case data res of None \<Rightarrow> None | Some v \<Rightarrow> Some v))"

text \<open>\<open>now\<close> is the value of \<^verbatim>\<open>new Date().toISOString()\<close> at the call.\<close>

definition upsertSession ::
  "store \<Rightarrow> pg_error option \<Rightarrow> string \<Rightarrow> string \<Rightarrow> string \<Rightarrow> session_entry list option run" where
  "upsertSession s fault now k v =
     (let (s', res) = upsert_session_table s fault \<lparr>key = k, session_value = v, updated_at = now\<rparr>
      in case error res of
           Some e \<Rightarrow> \<lparr>outcome = Thrown e, console = [], db = s'\<rparr>
         | None \<Rightarrow> \<lparr>outcome = Returned (data res), console = [], db = s'\<rparr>)"

definition put_watchlist_analysis :: "watchlist_analysis \<Rightarrow> stock_query \<Rightarrow> stock_query" where
  "put_watchlist_analysis d r =
     r\<lparr>from_date := watchlist_analysis.from_date d,
       to_date := Some (watchlist_analysis.to_date d),
       emiten := watchlist_analysis.emiten d,
       sector := keep (watchlist_analysis.sector d) (sector r),
       bandar := keep (watchlist_analysis.bandar d) (bandar r),
       barang_bandar := keep (watchlist_analysis.barang_bandar d) (barang_bandar r),
       rata_rata_bandar := keep (watchlist_analysis.rata_rata_bandar d) (rata_rata_bandar r),
       harga := keep (watchlist_analysis.harga d) (harga r),
       ara := keep (watchlist_analysis.ara d) (ara r),
       arb := keep (watchlist_analysis.arb d) (arb r),
       fraksi := keep (watchlist_analysis.fraksi d) (fraksi r),
       total_bid := keep (watchlist_analysis.total_bid d) (total_bid r),
       total_offer := keep (watchlist_analysis.total_offer d) (total_offer r),
       total_papan := keep (watchlist_analysis.total_papan d) (total_papan r),
       rata_rata_bid_ofer := keep (watchlist_analysis.rata_rata_bid_ofer d) (rata_rata_bid_ofer r),
       a_col := keep (watchlist_analysis.a_col d) (a_col r),
       p_col := keep (watchlist_analysis.p_col d) (p_col r),
       target_realistis := keep (watchlist_analysis.target_realistis d) (target_realistis r),
       target_max := keep (watchlist_analysis.target_max d) (target_max r),
       status := keep (watchlist_analysis.status d) (status r),
       error_message := keep (watchlist_analysis.error_message d) (error_message r)\<rparr>"

definition saveWatchlistAnalysis ::
  "store \<Rightarrow> pg_error option \<Rightarrow> watchlist_analysis \<Rightarrow> stock_query list option run" where
  "saveWatchlistAnalysis s fault d =
     (let (s', res) = upsert_stock_queries s fault (Some (watchlist_analysis.from_date d))
                        (watchlist_analysis.emiten d) (put_watchlist_analysis d)
      in case error res of
           Some e \<Rightarrow> \<lparr>outcome = Thrown e, console = [(''Error saving watchlist analysis:'', e)], db = s'\<rparr>
         | None \<Rightarrow> \<lparr>outcome = Returned (data res), console = [], db = s'\<rparr>)"

text \<open>
  \<^verbatim>\<open>str.split(/\s+/)\<close>: the pieces between maximal runs of white space; a run at either end
  leaves an empty piece there. White space is what \<^verbatim>\<open>\s\<close> matches among the 8-bit
  characters: tab, line feed, vertical tab, form feed, carriage return, space, no-break space.
\<close>

definition is_space :: "char \<Rightarrow> bool" where
  "is_space c = (c \<in> set [CHR 0x09, CHR 0x0A, CHR 0x0B, CHR 0x0C, CHR 0x0D, CHR 0x20, CHR 0xA0])"

function split_space :: "string \<Rightarrow> string list" where
  "split_space [] = [[]]"
| "split_space (c # cs) =
     (if is_space c then [] # split_space (dropWhile is_space cs)
      else (case split_space cs of [] \<Rightarrow> [[c]] | t # ts \<Rightarrow> (c # t) # ts))"
  by pat_completeness auto
termination
  by (relation "measure length") (auto simp: le_imp_less_Suc length_dropWhile_le)

text \<open>\<^verbatim>\<open>if (x) { query = ... }\<close> for an optional string and an optional number: \<^verbatim>\<open>undefined\<close>,
  the empty string and zero do not pass the test.\<close>

definition when_string :: "string option \<Rightarrow> (string \<Rightarrow> 'q \<Rightarrow> 'q) \<Rightarrow> 'q \<Rightarrow> 'q" where
  "when_string x build q = (case x of None \<Rightarrow> q | Some v \<Rightarrow> if v = [] then q else build v q)"

definition when_number :: "number option \<Rightarrow> (number \<Rightarrow> 'q \<Rightarrow> 'q) \<Rightarrow> 'q \<Rightarrow> 'q" where
  "when_number x build q = (case x of None \<Rightarrow> q | Some n \<Rightarrow> if n = 0 then q else build n q)"

text \<open>The query that \<^verbatim>\<open>getWatchlistAnalysisHistory\<close> builds before it awaits it.\<close>

definition history_query :: "filters \<Rightarrow> query" where
  "history_query f =
     (let query = q_select True;
          sort_by = (case sortBy f of None \<Rightarrow> ''from_date''
                     | Some c \<Rightarrow> if c = [] then ''from_date'' else c);
          sort_order = (case sortOrder f of None \<Rightarrow> Desc | Some d \<Rightarrow> d);
          query =
            (if sort_by = ''combined''
             then q_order ''emiten'' (sort_order = Asc)
                    (q_order ''from_date'' (sort_order = Asc) query)
             else if sort_by = ''emiten''
             then q_order ''from_date'' True (q_order ''emiten'' (sort_order = Asc) query)
             else q_order sort_by (sort_order = Asc) query);
          query = when_string (filters.emiten f)
                    (\<lambda>e q. let emitenList = filter (\<lambda>t. t \<noteq> []) (split_space e)
                           in if length emitenList > 0 then q_filter (In_list ''emiten'' emitenList) q
                              else q) query;
          query = when_string (filters.sector f) (\<lambda>v. q_filter (Eq ''sector'' (Text v))) query;
          query = when_string (fromDate f) (\<lambda>v. q_filter (Gte ''from_date'' (Text v))) query;
          query = when_string (toDate f) (\<lambda>v. q_filter (Lte ''from_date'' (Text v))) query;
          query = when_string (filters.status f) (\<lambda>v. q_filter (Eq ''status'' (Text v))) query;
          query = when_number (limit f) q_limit query;
          query = when_number (offset f)
                    (\<lambda>n. q_range n
                       (n + (case limit f of None \<Rightarrow> 50 | Some l \<Rightarrow> if l = 0 then 50 else l) - 1))
                    query
      in query)"

definition getWatchlistAnalysisHistory ::
  "store \<Rightarrow> pg_error option \<Rightarrow> filters \<Rightarrow> (stock_query list option \<times> nat option) run" where
  "getWatchlistAnalysisHistory s fault f =
     (let res = run_select stock_queries_column (stock_queries s) fault (history_query f)
      in case error res of
           Some e \<Rightarrow> \<lparr>outcome = Thrown e, console = [(''Error fetching watchlist analysis:'', e)], db = s\<rparr>
         | None \<Rightarrow> \<lparr>outcome = Returned (data res, count res), console = [], db = s\<rparr>)"

definition latest_query :: "string \<Rightarrow> query" where
  "latest_query e =
     q_limit 1 (q_order ''from_date'' False
       (q_filter (Eq ''status'' (Text ''success''))
         (q_filter (Eq ''emiten'' (Text e)) (q_select False))))"

definition getLatestStockQuery :: "store \<Rightarrow> pg_error option \<Rightarrow> string \<Rightarrow> stock_query option" where
  "getLatestStockQuery s fault e =
     (let res = q_single (run_select stock_queries_column (stock_queries s) fault (latest_query e))
      in case error res of Some err \<Rightarrow> None | None \<Rightarrow> data res)"

definition previous_query :: "string \<Rightarrow> string \<Rightarrow> query" where
  "previous_query e currentDate =
     q_limit 1 (q_order ''from_date'' False
       (q_filter (Lt ''from_date'' (Text currentDate))
         (q_filter (Eq ''status'' (Text ''success''))
           (q_filter (Eq ''emiten'' (Text e)) (q_select False)))))"

text \<open>
  \<^verbatim>\<open>updatePreviousDayRealPrice\<close> sends two requests, the lookup and the update; \<open>fault1\<close>
  and \<open>fault2\<close> are the errors the store reports for them, if any.
\<close>

definition updatePreviousDayRealPrice ::
  "store \<Rightarrow> pg_error option \<Rightarrow> pg_error option \<Rightarrow> string \<Rightarrow> string \<Rightarrow> number
     \<Rightarrow> stock_query list option run" where
  "updatePreviousDayRealPrice s fault1 fault2 e currentDate price =
     (let found = q_single (project (\<lambda>r. (row_id r, from_date r))
                    (run_select stock_queries_column (stock_queries s) fault1
                       (previous_query e currentDate)))
      in case (error found, data found) of
           (None, Some (record_id, record_from_date)) \<Rightarrow>
             (let (rows, res) = run_update stock_queries_column (stock_queries s) fault2
                                  [Eq ''id'' (Number record_id)] (\<lambda>r. r\<lparr>real_harga := Some price\<rparr>)
              in \<lparr>outcome = Returned (data res),
                  console = (case error res of None \<Rightarrow> []
                             | Some err \<Rightarrow>
                                 [(''Error updating real_harga for '' @ e @ '' on '' @ record_from_date @ '':'',
                                   err)]),
                  db = s\<lparr>stock_queries := rows\<rparr>\<rparr>)
         | (findError, _) \<Rightarrow>
             \<lparr>outcome = Returned None,
              console = (case findError of None \<Rightarrow> []
                         | Some err \<Rightarrow>
                             if code err \<noteq> ''PGRST116''
                             then [(''Error finding previous record for '' @ e @ '' before '' @ currentDate @ '':'',
                                    err)]
                             else []),
              db = s\<rparr>)"

section \<open>Notions the properties are stated with\<close>

text \<open>The ticker symbols an \<open>emiten\<close> filter names: the non-empty pieces of the split.\<close>

definition tickers :: "string \<Rightarrow> string list" where
  "tickers e = filter (\<lambda>t. t \<noteq> []) (split_space e)"

text \<open>An optional filter that is absent or empty lets every row pass.\<close>

definition passes :: "string option \<Rightarrow> (string \<Rightarrow> bool) \<Rightarrow> bool" where
  "passes x test = (case x of None \<Rightarrow> True | Some v \<Rightarrow> v = [] \<or> test v)"

text \<open>
  The rows a set of filters selects, as section 4.1 of the specification words it: membership
  for \<open>emiten\<close>, exact match for \<open>sector\<close> and \<open>status\<close>, an inclusive range on
  \<open>from_date\<close>, all of them together. Limit, offset and sorting play no part.
\<close>

definition satisfies :: "filters \<Rightarrow> stock_query \<Rightarrow> bool" where
  "satisfies f r =
     (passes (filters.emiten f) (\<lambda>e. tickers e = [] \<or> emiten r \<in> set (tickers e)) \<and>
      passes (filters.sector f) (\<lambda>v. sector r = Some v) \<and>
      passes (fromDate f) (\<lambda>v. v \<le> from_date r) \<and>
      passes (toDate f) (\<lambda>v. from_date r \<le> v) \<and>
      passes (filters.status f) (\<lambda>v. status r = Some v))"

text \<open>
  Two sets of filters put together. A filter is given when it is present and not empty;
  \<open>both f g\<close> is the call \<open>f\<close> with the filters of \<open>g\<close> added where \<open>f\<close> gives none, and
  \<open>apart f g\<close> says that no filter is given in both.
\<close>

definition given :: "string option \<Rightarrow> bool" where
  "given x = (case x of None \<Rightarrow> False | Some v \<Rightarrow> v \<noteq> [])"

definition either :: "string option \<Rightarrow> string option \<Rightarrow> string option" where
  "either x y = (if given x then x else y)"

definition both :: "filters \<Rightarrow> filters \<Rightarrow> filters" where
  "both f g =
     f\<lparr>filters.emiten := either (filters.emiten f) (filters.emiten g),
       filters.sector := either (filters.sector f) (filters.sector g),
       fromDate := either (fromDate f) (fromDate g),
       toDate := either (toDate f) (toDate g),
       filters.status := either (filters.status f) (filters.status g)\<rparr>"

definition apart :: "filters \<Rightarrow> filters \<Rightarrow> bool" where
  "apart f g =
     (\<not> (given (filters.emiten f) \<and> given (filters.emiten g)) \<and>
      \<not> (given (filters.sector f) \<and> given (filters.sector g)) \<and>
      \<not> (given (fromDate f) \<and> given (fromDate g)) \<and>
      \<not> (given (toDate f) \<and> given (toDate g)) \<and>
      \<not> (given (filters.status f) \<and> given (filters.status g)))"

text \<open>Row \<open>x\<close> may stand before row \<open>y\<close>: by ticker in the given direction, equal tickers by
  date ascending.\<close>

definition emiten_then_date :: "bool \<Rightarrow> stock_query \<Rightarrow> stock_query \<Rightarrow> bool" where
  "emiten_then_date ascending x y =
     ((if ascending then emiten x < emiten y else emiten y < emiten x) \<or>
      (emiten x = emiten y \<and> from_date x \<le> from_date y))"

text \<open>By date, equal dates by ticker, both in the given direction.\<close>

definition date_then_emiten :: "bool \<Rightarrow> stock_query \<Rightarrow> stock_query \<Rightarrow> bool" where
  "date_then_emiten ascending x y =
     ((if ascending then from_date x < from_date y else from_date y < from_date x) \<or>
      (from_date x = from_date y \<and>
       (if ascending then emiten x \<le> emiten y else emiten y \<le> emiten x)))"

text \<open>The window \<open>[offset, offset + (limit or 50) - 1]\<close> of a list of rows.\<close>

definition page_size :: "number option \<Rightarrow> number" where
  "page_size l = (case l of None \<Rightarrow> 50 | Some n \<Rightarrow> if n = 0 then 50 else n)"

definition page_window :: "number \<Rightarrow> number option \<Rightarrow> 'a list \<Rightarrow> 'a list" where
  "page_window off lim rows = take (nat (page_size lim)) (drop (nat off) rows)"

text \<open>The successful records of a ticker, and those dated strictly before a day.\<close>

definition successes :: "store \<Rightarrow> string \<Rightarrow> stock_query list" where
  "successes s e = filter (\<lambda>r. emiten r = e \<and> status r = Some ''success'') (stock_queries s)"

definition prior_records :: "store \<Rightarrow> string \<Rightarrow> string \<Rightarrow> stock_query list" where
  "prior_records s e d =
     filter (\<lambda>r. emiten r = e \<and> status r = Some ''success'' \<and> from_date r < d) (stock_queries s)"

text \<open>
  The invariant of the two tables: one record per ticker and date, one session entry per
  key. The ids of the records are a primary key below the store's counter.
\<close>

definition key_unique :: "store \<Rightarrow> bool" where
  "key_unique s =
     (distinct (map (\<lambda>r. (emiten r, from_date r)) (stock_queries s)) \<and>
      distinct (map key (session s)))"

definition ids_unique :: "store \<Rightarrow> bool" where
  "ids_unique s =
     (distinct (map row_id (stock_queries s)) \<and> (\<forall>r \<in> set (stock_queries s). row_id r < next_id s))"

subsection \<open>Auxiliary notions of the proofs\<close>

definition truthy :: "number option \<Rightarrow> number option" where
  "truthy x = (case x of None \<Rightarrow> None | Some n \<Rightarrow> if n = 0 then None else Some n)"

definition sort_keys :: "filters \<Rightarrow> (string \<times> bool) list" where
  "sort_keys f =
     (let c = (case sortBy f of None \<Rightarrow> ''from_date'' | Some c \<Rightarrow> if c = [] then ''from_date'' else c);
          asc = (sortOrder f = Some Asc)
      in if c = ''combined'' then [(''from_date'', asc), (''emiten'', asc)]
         else if c = ''emiten'' then [(''emiten'', asc), (''from_date'', True)]
         else [(c, asc)])"

definition sortable :: "filters \<Rightarrow> bool" where
  "sortable f = (\<forall>c \<in> set (map fst (sort_keys f)). stock_queries_column c \<noteq> None)"

definition optional :: "string option \<Rightarrow> (string \<Rightarrow> bool) \<Rightarrow> (string \<Rightarrow> cond) \<Rightarrow> cond list" where
  "optional x skip g = (case x of None \<Rightarrow> [] | Some v \<Rightarrow> if v = [] \<or> skip v then [] else [g v])"

definition filter_conds :: "filters \<Rightarrow> cond list" where
  "filter_conds f =
     optional (filters.emiten f) (\<lambda>e. tickers e = []) (\<lambda>e. In_list ''emiten'' (tickers e)) @
     optional (filters.sector f) (\<lambda>v. False) (\<lambda>v. Eq ''sector'' (Text v)) @
     optional (fromDate f) (\<lambda>v. False) (\<lambda>v. Gte ''from_date'' (Text v)) @
     optional (toDate f) (\<lambda>v. False) (\<lambda>v. Lte ''from_date'' (Text v)) @
     optional (filters.status f) (\<lambda>v. False) (\<lambda>v. Eq ''status'' (Text v))"

definition thrown :: "store \<Rightarrow> string \<Rightarrow> pg_error \<Rightarrow> 'a run" where
  "thrown s line e = \<lparr>outcome = Thrown e, console = [(line, e)], db = s\<rparr>"

definition latest_first :: "stock_query list \<Rightarrow> stock_query list" where
  "latest_first rs = sort_rows (row_le stock_queries_column [(''from_date'', False)]) rs"

subsection \<open>A store and calls to try the properties on\<close>

definition bbca_1 :: stock_query where
  "bbca_1 = (blank_row 1 ''2024-01-01'' ''BBCA'')\<lparr>sector := Some ''bank'', status := Some ''success''\<rparr>"

definition bbca_2 :: stock_query where
  "bbca_2 = (blank_row 2 ''2024-01-02'' ''BBCA'')\<lparr>sector := Some ''bank'', status := Some ''success''\<rparr>"

definition antm_1 :: stock_query where
  "antm_1 = (blank_row 3 ''2024-01-01'' ''ANTM'')\<lparr>sector := Some ''mining'', status := Some ''success''\<rparr>"

definition antm_2 :: stock_query where
  "antm_2 = (blank_row 4 ''2024-01-02'' ''ANTM'')\<lparr>sector := Some ''mining'', status := Some ''error''\<rparr>"

definition fixture :: store where
  "fixture = \<lparr>stock_queries = [bbca_1, antm_1, antm_2, bbca_2],
     session = [\<lparr>key = ''token'', session_value = ''abc'', updated_at = ''2024-01-02T08:00:00.000Z''\<rparr>],
     next_id = 5\<rparr>"

definition no_filters :: filters where
  "no_filters = \<lparr>filters.emiten = None, filters.sector = None, fromDate = None, toDate = None,
     filters.status = None, limit = None, offset = None, sortBy = None, sortOrder = None\<rparr>"

text \<open>Sorted by id, no two records tie.\<close>

definition by_id :: filters where
  "by_id = no_filters\<lparr>sortBy := Some ''id'', sortOrder := Some Asc\<rparr>"

definition unreachable :: pg_error where
  "unreachable = \<lparr>code = ''503'', message = ''service unavailable''\<rparr>"

text \<open>Fifty-one records of one day, with tickers \<open>AA\<close>, \<open>AB\<close>, ...\<close>

definition many_rows :: "stock_query list" where
  "many_rows = map (\<lambda>(i, x, y). blank_row i ''2024-01-01'' [x, y])
                 (zip [1..51] (List.product ''ABCDEFG'' ''ABCDEFGH''))"

definition many_store :: store where
  "many_store = \<lparr>stock_queries = many_rows, session = [], next_id = 52\<rparr>"

definition tlkm_query :: stock_query_data where
  "tlkm_query =
     \<lparr>stock_query_data.emiten = ''TLKM'', stock_query_data.sector = Some ''telco'',
      stock_query_data.from_date = Some ''2024-01-02'', stock_query_data.to_date = Some ''2024-01-02'',
      stock_query_data.bandar = Some ''YP'', stock_query_data.barang_bandar = Some 1200,
      stock_query_data.rata_rata_bandar = Some 3900, stock_query_data.harga = Some 3950,
      stock_query_data.ara = Some 4200, stock_query_data.arb = Some 3700,
      stock_query_data.fraksi = Some 10, stock_query_data.total_bid = Some 5000,
      stock_query_data.total_offer = Some 4000, stock_query_data.total_papan = Some 9000,
      stock_query_data.rata_rata_bid_ofer = Some 450, stock_query_data.a_col = Some 5,
      stock_query_data.p_col = Some 7, stock_query_data.target_realistis = Some 4100,
      stock_query_data.target_max = Some 4300\<rparr>"

definition bbca_analysis :: watchlist_analysis where
  "bbca_analysis =
     \<lparr>watchlist_analysis.from_date = ''2024-01-02'', watchlist_analysis.to_date = ''2024-01-02'',
      watchlist_analysis.emiten = ''BBCA'', watchlist_analysis.sector = Some ''bank'',
      watchlist_analysis.bandar = None, watchlist_analysis.barang_bandar = None,
      watchlist_analysis.rata_rata_bandar = None, watchlist_analysis.harga = Some 9500,
      watchlist_analysis.ara = None, watchlist_analysis.arb = None,
      watchlist_analysis.fraksi = None, watchlist_analysis.total_bid = None,
      watchlist_analysis.total_offer = None, watchlist_analysis.total_papan = None,
      watchlist_analysis.rata_rata_bid_ofer = None, watchlist_analysis.a_col = None,
      watchlist_analysis.p_col = None, watchlist_analysis.target_realistis = None,
      watchlist_analysis.target_max = None, watchlist_analysis.status = Some ''error'',
      watchlist_analysis.error_message = Some ''no data''\<rparr>"

section \<open>Sorting\<close>

lemma set_insort_row: "set (insort_row le x xs) = insert x (set xs)"
  by (induction xs) auto

lemma set_sort_rows: "set (sort_rows le xs) = set xs"
  unfolding sort_rows_def by (induction xs) (simp_all add: set_insort_row)

lemma length_insort_row: "length (insort_row le x xs) = Suc (length xs)"
  by (induction xs) auto

lemma length_sort_rows: "length (sort_rows le xs) = length xs"
  unfolding sort_rows_def by (induction xs) (simp_all add: length_insort_row)

lemma sorted_insort_row:
  assumes total: "\<And>x y. le x y \<or> le y x" and trans: "\<And>x y z. le x y \<Longrightarrow> le y z \<Longrightarrow> le x z"
  shows "sorted_wrt le xs \<Longrightarrow> sorted_wrt le (insort_row le x xs)"
proof (induction xs)
  case Nil
  then show ?case by simp
next
  case (Cons y ys)
  show ?case
  proof (cases "le x y")
    case True
    have "\<forall>z \<in> set ys. le x z"
    proof
      fix z assume "z \<in> set ys"
      with Cons.prems have "le y z" by simp
      with True show "le x z" by (rule trans)
    qed
    with True Cons.prems show ?thesis by simp
  next
    case False
    with total have "le y x" by blast
    with Cons False show ?thesis by (auto simp: set_insort_row)
  qed
qed

lemma sorted_sort_rows:
  assumes "\<And>x y. le x y \<or> le y x" and "\<And>x y z. le x y \<Longrightarrow> le y z \<Longrightarrow> le x z"
  shows "sorted_wrt le (sort_rows le xs)"
  unfolding sort_rows_def
  by (induction xs) (simp_all add: sorted_insort_row [where le = le, OF assms])

lemma val_le_total: "val_le x y \<or> val_le y x"
  by (cases x; cases y) auto

lemma val_le_trans: "val_le x y \<Longrightarrow> val_le y z \<Longrightarrow> val_le x z"
  by (cases x; cases y; cases z) auto

lemma val_le_antisym: "val_le x y \<Longrightarrow> val_le y x \<Longrightarrow> x = y"
  by (cases x; cases y) auto

lemma row_le_total: "row_le col ks x y \<or> row_le col ks y x"
proof (induction ks)
  case Nil
  then show ?case by simp
next
  case (Cons k ks)
  obtain c asc where k: "k = (c, asc)" by (cases k)
  have "val_le (cell col c x) (cell col c y) \<or> val_le (cell col c y) (cell col c x)"
    by (rule val_le_total)
  with Cons show ?case unfolding k by auto
qed

lemma row_le_trans: "row_le col ks x y \<Longrightarrow> row_le col ks y z \<Longrightarrow> row_le col ks x z"
proof (induction ks)
  case Nil
  then show ?case by simp
next
  case (Cons k ks)
  obtain c asc where k: "k = (c, asc)" by (cases k)
  let ?x = "cell col c x" and ?y = "cell col c y" and ?z = "cell col c z"
  show ?case
  proof (cases "?x = ?y")
    case True
    with Cons show ?thesis unfolding k by (auto split: if_splits)
  next
    case xy: False
    show ?thesis
    proof (cases "?y = ?z")
      case True
      with xy Cons show ?thesis unfolding k by (auto split: if_splits)
    next
      case yz: False
      have le: "if asc then val_le ?x ?y \<and> val_le ?y ?z else val_le ?y ?x \<and> val_le ?z ?y"
        using Cons.prems xy yz unfolding k by (simp split: if_splits)
      have "?x \<noteq> ?z"
      proof
        assume "?x = ?z"
        with le have "val_le ?x ?y \<and> val_le ?y ?x" by (simp split: if_splits)
        then have "?x = ?y" using val_le_antisym by blast
        with xy show False by simp
      qed
      moreover have "if asc then val_le ?x ?z else val_le ?z ?x"
        using le val_le_trans by (auto split: if_splits)
      ultimately show ?thesis unfolding k by simp
    qed
  qed
qed

lemma sorted_rows: "sorted_wrt (row_le col ks) (sort_rows (row_le col ks) xs)"
proof (rule sorted_sort_rows)
  show "\<And>x y. row_le col ks x y \<or> row_le col ks y x" by (rule row_le_total)
  show "\<And>x y z. row_le col ks x y \<Longrightarrow> row_le col ks y z \<Longrightarrow> row_le col ks x z"
    by (rule row_le_trans)
qed

lemma count_list_insort_row: "count_list (insort_row le x xs) r = count_list (x # xs) r"
  by (induction xs) auto

lemma count_list_sort_rows: "count_list (sort_rows le xs) r = count_list xs r"
  unfolding sort_rows_def by (induction xs) (simp_all add: count_list_insort_row)

lemma same_counts_same_set:
  assumes "\<forall>r. count_list xs r = count_list ys r"
  shows "set xs = set ys"
proof -
  have "(r \<in> set xs) = (r \<in> set ys)" for r
    using assms count_list_0_iff [of xs r] count_list_0_iff [of ys r] by simp
  then show ?thesis by blast
qed

lemma sorted_arrangement_unique:
  assumes "sorted_wrt le xs" and "sorted_wrt le ys"
      and "\<forall>r. count_list xs r = count_list ys r"
      and "\<forall>x \<in> set xs. \<forall>y \<in> set xs. le x y \<and> le y x \<longrightarrow> x = y"
  shows "xs = ys"
  using assms
proof (induction xs arbitrary: ys)
  case Nil
  then have "set ys = {}" using same_counts_same_set [of "[]" ys] by simp
  then show ?case by simp
next
  case (Cons x xs)
  have sets: "set (x # xs) = set ys"
    using Cons.prems(3) by (rule same_counts_same_set)
  then obtain y ys' where ys: "ys = y # ys'" by (cases ys) auto
  have "x = y"
  proof (rule ccontr)
    assume ne: "x \<noteq> y"
    with sets ys have "x \<in> set ys'" by auto
    with Cons.prems(2) ys have yx: "le y x" by simp
    from sets ys ne have "y \<in> set xs" by auto
    with Cons.prems(1) have xy: "le x y" by simp
    have "x \<in> set (x # xs)" by simp
    moreover from \<open>y \<in> set xs\<close> have "y \<in> set (x # xs)" by simp
    ultimately have "x = y" using Cons.prems(4) xy yx by blast
    with ne show False by simp
  qed
  moreover have "xs = ys'"
  proof (rule Cons.IH)
    show "sorted_wrt le xs" using Cons.prems(1) by simp
    show "sorted_wrt le ys'" using Cons.prems(2) ys by simp
    show "\<forall>r. count_list xs r = count_list ys' r"
    proof
      fix r
      from Cons.prems(3) have "count_list (x # xs) r = count_list (y # ys') r"
        unfolding ys by blast
      with \<open>x = y\<close> show "count_list xs r = count_list ys' r" by (simp split: if_splits)
    qed
    show "\<forall>a \<in> set xs. \<forall>b \<in> set xs. le a b \<and> le b a \<longrightarrow> a = b"
      using Cons.prems(4) by simp
  qed
  ultimately show ?case using ys by simp
qed

section \<open>What the history query asks for\<close>

lemma cell_from_date [simp]: "cell stock_queries_column ''from_date'' r = Text (from_date r)"
  by (simp add: cell_def stock_queries_column_def)

lemma cell_emiten [simp]: "cell stock_queries_column ''emiten'' r = Text (emiten r)"
  by (simp add: cell_def stock_queries_column_def)

lemma cell_sector [simp]: "cell stock_queries_column ''sector'' r = text_or_null (sector r)"
  by (simp add: cell_def stock_queries_column_def)

lemma cell_status [simp]: "cell stock_queries_column ''status'' r = text_or_null (status r)"
  by (simp add: cell_def stock_queries_column_def)

lemma cell_id [simp]: "cell stock_queries_column ''id'' r = Number (row_id r)"
  by (simp add: cell_def stock_queries_column_def)

lemma known_columns [simp]:
  "stock_queries_column ''from_date'' = Some (\<lambda>r. Text (from_date r))"
  "stock_queries_column ''emiten'' = Some (\<lambda>r. Text (emiten r))"
  "stock_queries_column ''sector'' = Some (\<lambda>r. text_or_null (sector r))"
  "stock_queries_column ''status'' = Some (\<lambda>r. text_or_null (status r))"
  "stock_queries_column ''id'' = Some (\<lambda>r. Number (row_id r))"
  by (simp_all add: stock_queries_column_def)

lemma sql_eq_text_or_null [simp]: "sql_eq (text_or_null x) (Text v) = (x = Some v)"
  by (cases x) (simp_all add: text_or_null_def)

lemma q_filter_simps [simp]:
  "conds (q_filter c q) = conds q @ [c]" "orders (q_filter c q) = orders q"
  "limit_param (q_filter c q) = limit_param q" "offset_param (q_filter c q) = offset_param q"
  "exact_count (q_filter c q) = exact_count q"
  by (simp_all add: q_filter_def)

lemma q_order_simps [simp]:
  "conds (q_order c a q) = conds q" "orders (q_order c a q) = orders q @ [(c, a)]"
  "limit_param (q_order c a q) = limit_param q" "offset_param (q_order c a q) = offset_param q"
  "exact_count (q_order c a q) = exact_count q"
  by (simp_all add: q_order_def)

lemma q_limit_simps [simp]:
  "conds (q_limit n q) = conds q" "orders (q_limit n q) = orders q"
  "limit_param (q_limit n q) = Some n" "offset_param (q_limit n q) = offset_param q"
  "exact_count (q_limit n q) = exact_count q"
  by (simp_all add: q_limit_def)

lemma q_range_simps [simp]:
  "conds (q_range a b q) = conds q" "orders (q_range a b q) = orders q"
  "limit_param (q_range a b q) = Some (b - a + 1)" "offset_param (q_range a b q) = Some a"
  "exact_count (q_range a b q) = exact_count q"
  by (simp_all add: q_range_def)

lemma q_select_simps [simp]:
  "conds (q_select n) = []" "orders (q_select n) = []"
  "limit_param (q_select n) = None" "offset_param (q_select n) = None"
  "exact_count (q_select n) = n"
  by (simp_all add: q_select_def)

lemma when_string_keeps:
  assumes "\<And>v q. P (build v q) = P q"
  shows "P (when_string x build q) = P q"
  using assms by (simp add: when_string_def split: option.splits)

lemma when_number_keeps:
  assumes "\<And>v q. P (build v q) = P q"
  shows "P (when_number x build q) = P q"
  using assms by (simp add: when_number_def split: option.splits)

lemma conds_when_string:
  "conds (when_string x (\<lambda>v. q_filter (g v)) q) = conds q @ optional x (\<lambda>v. False) g"
  by (cases x) (simp_all add: when_string_def optional_def)

lemma conds_when_emiten:
  "conds (when_string x (\<lambda>e q. if c e then q_filter (g e) q else q) q0) =
   conds q0 @ optional x (\<lambda>e. \<not> c e) g"
  by (cases x) (simp_all add: when_string_def optional_def)

lemma conds_when_number:
  assumes "\<And>v q. conds (build v q) = conds q"
  shows "conds (when_number x build q) = conds q"
  using assms by (simp add: when_number_def split: option.splits)

lemma orders_when_string:
  assumes "\<And>v q. orders (build v q) = orders q"
  shows "orders (when_string x build q) = orders q"
  using assms by (simp add: when_string_def split: option.splits)

lemma orders_when_number:
  assumes "\<And>v q. orders (build v q) = orders q"
  shows "orders (when_number x build q) = orders q"
  using assms by (simp add: when_number_def split: option.splits)

lemma conds_history_query: "conds (history_query f) = filter_conds f"
  unfolding history_query_def Let_def filter_conds_def
  by (simp add: conds_when_number conds_when_string conds_when_emiten tickers_def)

lemma orders_history_query: "orders (history_query f) = sort_keys f"
  unfolding history_query_def sort_keys_def
  by (simp add: Let_def orders_when_number orders_when_string split: option.splits)

lemma exact_count_history_query: "exact_count (history_query f) = True"
  unfolding history_query_def Let_def
  by (simp add: when_number_keeps [where P = exact_count] when_string_keeps [where P = exact_count])

lemma when_number_range:
  "offset_param (when_number x (\<lambda>n. q_range n (n + k - 1)) q) =
     (if truthy x = None then offset_param q else truthy x)"
  "limit_param (when_number x (\<lambda>n. q_range n (n + k - 1)) q) =
     (if truthy x = None then limit_param q else Some k)"
  by (simp_all add: when_number_def truthy_def split: option.splits)

lemma when_number_limit:
  "offset_param (when_number x q_limit q) = offset_param q"
  "limit_param (when_number x q_limit q) = (if truthy x = None then limit_param q else truthy x)"
  by (simp_all add: when_number_def truthy_def split: option.splits)

lemma offset_history_query: "offset_param (history_query f) = truthy (offset f)"
  unfolding history_query_def Let_def
  by (simp add: when_number_range when_number_limit when_string_keeps [where P = offset_param])

lemma limit_history_query:
  "limit_param (history_query f) =
     (if truthy (offset f) = None then truthy (limit f) else Some (page_size (limit f)))"
  unfolding history_query_def Let_def
  by (simp add: when_number_range when_number_limit when_string_keeps [where P = limit_param]
        page_size_def)

lemma ball_optional:
  "(\<forall>c \<in> set (optional x skip g). P c) = passes x (\<lambda>v. skip v \<or> P (g v))"
proof (cases x)
  case None
  then show ?thesis by (simp add: optional_def passes_def)
next
  case (Some v)
  then show ?thesis
    by (cases "v = [] \<or> skip v") (auto simp: optional_def passes_def)
qed

lemma holds_filter_conds:
  "(\<forall>c \<in> set (filter_conds f). holds stock_queries_column c r) = satisfies f r"
  unfolding filter_conds_def satisfies_def
  by (simp add: ball_Un ball_optional)

lemma cond_columns_known:
  "\<forall>c \<in> set (filter_conds f). stock_queries_column (cond_column c) \<noteq> None"
  unfolding filter_conds_def
  by (simp add: ball_Un ball_optional passes_def split: option.splits)

lemma matching_history_query:
  "matching stock_queries_column (history_query f) rows = filter (satisfies f) rows"
  by (simp add: matching_def conds_history_query holds_filter_conds)

lemma no_unknown_column:
  "(\<exists>c \<in> set (map cond_column (filter_conds f) @ map fst (sort_keys f)).
           stock_queries_column c = None) = (\<not> sortable f)"
  using cond_columns_known [of f] by (auto simp: sortable_def)

lemma run_history:
  "run_select stock_queries_column rows None (history_query f) =
     (if \<not> sortable f then failed undefined_column
      else if negative (limit_param (history_query f)) \<or> negative (offset_param (history_query f))
      then failed invalid_row_count
      else served (window (history_query f)
                    (sort_rows (row_le stock_queries_column (sort_keys f)) (filter (satisfies f) rows)))
             (Some (length (filter (satisfies f) rows))))"
  unfolding run_select_def
  by (simp only: conds_history_query orders_history_query no_unknown_column
        matching_history_query exact_count_history_query option.case if_True)

section \<open>The outcome of the history function\<close>

lemma history_fault:
  "getWatchlistAnalysisHistory s (Some e) f = thrown s ''Error fetching watchlist analysis:'' e"
  by (simp add: getWatchlistAnalysisHistory_def run_select_def failed_def thrown_def)

lemma history_served:
  "getWatchlistAnalysisHistory s None f =
     (if \<not> sortable f then thrown s ''Error fetching watchlist analysis:'' undefined_column
      else if negative (limit_param (history_query f)) \<or> negative (offset_param (history_query f))
      then thrown s ''Error fetching watchlist analysis:'' invalid_row_count
      else \<lparr>outcome = Returned
               (Some (window (history_query f)
                  (sort_rows (row_le stock_queries_column (sort_keys f))
                     (filter (satisfies f) (stock_queries s)))),
                Some (length (filter (satisfies f) (stock_queries s)))),
             console = [], db = s\<rparr>)"
  unfolding getWatchlistAnalysisHistory_def run_history
  by (simp add: failed_def served_def thrown_def)

lemma history_returned:
  assumes "outcome (getWatchlistAnalysisHistory s fault f) = Returned (rows, n)"
  shows "fault = None \<and> sortable f \<and>
         \<not> negative (limit_param (history_query f)) \<and> \<not> negative (offset_param (history_query f)) \<and>
         rows = Some (window (history_query f)
                  (sort_rows (row_le stock_queries_column (sort_keys f))
                     (filter (satisfies f) (stock_queries s)))) \<and>
         n = Some (length (filter (satisfies f) (stock_queries s)))"
proof (cases fault)
  case None
  show ?thesis
  proof (cases "sortable f")
    case True
    with assms None show ?thesis
      by (cases "negative (limit_param (history_query f)) \<or> negative (offset_param (history_query f))")
         (simp_all add: history_served thrown_def)
  next
    case False
    with assms None show ?thesis by (simp add: history_served thrown_def)
  qed
next
  case (Some e)
  with assms show ?thesis by (simp add: history_fault thrown_def)
qed

lemma sorted_wrt_take: "sorted_wrt P xs \<Longrightarrow> sorted_wrt P (take n xs)"
  by (induction xs arbitrary: n) (auto simp: take_Cons split: nat.splits dest: in_set_takeD)

lemma sorted_wrt_drop': "sorted_wrt P xs \<Longrightarrow> sorted_wrt P (drop n xs)"
  by (induction xs arbitrary: n) (auto simp: drop_Cons split: nat.splits dest: in_set_dropD)

lemma sorted_wrt_window: "sorted_wrt P xs \<Longrightarrow> sorted_wrt P (window q xs)"
  by (simp add: window_def Let_def sorted_wrt_take sorted_wrt_drop' split: option.splits)

lemma sorted_wrt_weaken: "sorted_wrt P xs \<Longrightarrow> (\<And>x y. P x y \<Longrightarrow> Q x y) \<Longrightarrow> sorted_wrt Q xs"
  by (rule sorted_wrt_mono_rel [where P = P]) auto

lemma val_le_Text [simp]: "val_le (Text x) (Text y) = (x \<le> y)"
  by simp

lemma row_le_emiten_date:
  "row_le stock_queries_column [(''emiten'', asc), (''from_date'', True)] x y \<Longrightarrow> emiten_then_date asc x y"
  by (auto simp: emiten_then_date_def split: if_splits)

lemma row_le_date_emiten:
  "row_le stock_queries_column [(''from_date'', asc), (''emiten'', asc)] x y \<Longrightarrow> date_then_emiten asc x y"
  by (auto simp: date_then_emiten_def split: if_splits)

lemma sort_keys_emiten:
  "sortBy f = Some ''emiten'' \<Longrightarrow> sort_keys f = [(''emiten'', sortOrder f = Some Asc), (''from_date'', True)]"
  by (simp add: sort_keys_def Let_def)

lemma sort_keys_combined:
  "sortBy f = Some ''combined'' \<Longrightarrow>
     sort_keys f = [(''from_date'', sortOrder f = Some Asc), (''emiten'', sortOrder f = Some Asc)]"
  by (simp add: sort_keys_def Let_def)

lemma split_space_not_Nil: "split_space e \<noteq> []"
proof (induction e rule: split_space.induct)
  case 1
  show ?case by simp
next
  case (2 c cs)
  show ?case
  proof (cases "is_space c")
    case True
    then show ?thesis by simp
  next
    case False
    then show ?thesis by (cases "split_space cs") simp_all
  qed
qed

lemma all_dropWhile: "(\<forall>x \<in> set (dropWhile P xs). P x) \<Longrightarrow> (\<forall>x \<in> set xs. P x)"
proof (induction xs)
  case Nil
  show ?case by simp
next
  case (Cons x xs)
  show ?case
  proof (cases "P x")
    case True
    with Cons.prems have "\<forall>y \<in> set (dropWhile P xs). P y" by simp
    then have "\<forall>y \<in> set xs. P y" by (rule Cons.IH)
    with True show ?thesis by simp
  next
    case False
    with Cons.prems show ?thesis by simp
  qed
qed

lemma tickers_Nil_iff: "(tickers e = []) = (\<forall>c \<in> set e. is_space c)"
proof (induction e rule: split_space.induct)
  case 1
  show ?case by (simp add: tickers_def)
next
  case (2 c cs)
  show ?case
  proof (cases "is_space c")
    case True
    have "(tickers (c # cs) = []) = (tickers (dropWhile is_space cs) = [])"
      using True by (simp add: tickers_def)
    also have "\<dots> = (\<forall>x \<in> set (dropWhile is_space cs). is_space x)"
      using 2(1) [OF True] .
    also have "\<dots> = (\<forall>x \<in> set cs. is_space x)"
      using all_dropWhile [of is_space cs] set_dropWhileD [of _ is_space cs] by blast
    finally show ?thesis using True by simp
  next
    case False
    obtain t ts where "split_space cs = t # ts"
      using split_space_not_Nil [of cs] by (cases "split_space cs") simp_all
    with False show ?thesis by (simp add: tickers_def)
  qed
qed

lemma history_query_parts:
  "history_query f =
     \<lparr>conds = filter_conds f, orders = sort_keys f,
      limit_param = limit_param (history_query f), offset_param = offset_param (history_query f),
      exact_count = True\<rparr>"
  by (rule query.equality)
     (simp_all add: conds_history_query orders_history_query exact_count_history_query)

lemma history_query_blank_emiten:
  assumes "tickers e = []"
  shows "history_query (f\<lparr>filters.emiten := Some e\<rparr>) = history_query (f\<lparr>filters.emiten := None\<rparr>)"
proof -
  have "filter_conds (f\<lparr>filters.emiten := Some e\<rparr>) = filter_conds (f\<lparr>filters.emiten := None\<rparr>)"
    using assms by (simp add: filter_conds_def optional_def)
  moreover have "sort_keys (f\<lparr>filters.emiten := Some e\<rparr>) = sort_keys (f\<lparr>filters.emiten := None\<rparr>)"
    by (simp add: sort_keys_def)
  moreover have "limit_param (history_query (f\<lparr>filters.emiten := Some e\<rparr>)) =
                 limit_param (history_query (f\<lparr>filters.emiten := None\<rparr>))"
    by (simp add: limit_history_query)
  moreover have "offset_param (history_query (f\<lparr>filters.emiten := Some e\<rparr>)) =
                 offset_param (history_query (f\<lparr>filters.emiten := None\<rparr>))"
    by (simp add: offset_history_query)
  ultimately show ?thesis
    by (subst (1 2) history_query_parts) simp
qed

lemma window_unpaged:
  "limit f = None \<Longrightarrow> offset f = None \<Longrightarrow> window (history_query f) xs = xs"
  by (simp add: window_def limit_history_query offset_history_query truthy_def)

lemma not_negative_unpaged:
  "limit f = None \<Longrightarrow> offset f = None \<Longrightarrow>
     \<not> negative (limit_param (history_query f)) \<and> \<not> negative (offset_param (history_query f))"
  by (simp add: negative_def limit_history_query offset_history_query truthy_def)

lemma passes_either:
  "\<not> (given x \<and> given y) \<Longrightarrow> passes (either x y) test = (passes x test \<and> passes y test)"
  by (cases x; cases y) (auto simp: passes_def either_def given_def)

lemma satisfies_both:
  assumes "apart f g"
  shows "satisfies (both f g) r = (satisfies f r \<and> satisfies g r)"
proof -
  have "\<not> (given (filters.emiten f) \<and> given (filters.emiten g))"
    "\<not> (given (filters.sector f) \<and> given (filters.sector g))"
    "\<not> (given (fromDate f) \<and> given (fromDate g))"
    "\<not> (given (toDate f) \<and> given (toDate g))"
    "\<not> (given (filters.status f) \<and> given (filters.status g))"
    using assms by (simp_all add: apart_def)
  then show ?thesis
    unfolding satisfies_def both_def by (simp add: passes_either) blast
qed

lemma sortable_cong: "sortBy f = sortBy g \<Longrightarrow> sortOrder f = sortOrder g \<Longrightarrow> sortable f = sortable g"
  by (simp add: sortable_def sort_keys_def)

lemma window_of_history_query:
  assumes "offset f = Some off"
  shows "off \<noteq> 0 \<or> (\<exists>l. limit f = Some l \<and> l \<noteq> 0) \<Longrightarrow>
           window (history_query f) xs = page_window off (limit f) xs"
    and "off = 0 \<and> (limit f = None \<or> limit f = Some 0) \<Longrightarrow> window (history_query f) xs = xs"
proof -
  show "window (history_query f) xs = page_window off (limit f) xs"
    if "off \<noteq> 0 \<or> (\<exists>l. limit f = Some l \<and> l \<noteq> 0)"
  proof (cases "off = 0")
    case True
    with that obtain l where "limit f = Some l" "l \<noteq> 0" by blast
    with True assms show ?thesis
      by (simp add: window_def limit_history_query offset_history_query truthy_def
            page_window_def page_size_def)
  next
    case False
    with assms show ?thesis
      by (simp add: window_def limit_history_query offset_history_query truthy_def page_window_def)
  qed
  show "window (history_query f) xs = xs" if "off = 0 \<and> (limit f = None \<or> limit f = Some 0)"
    using that assms
    by (auto simp: window_def limit_history_query offset_history_query truthy_def)
qed

lemma negative_limit_param:
  "negative (limit_param (history_query f)) = negative (limit f)"
  by (auto simp: limit_history_query truthy_def negative_def page_size_def split: option.splits)

lemma negative_offset_param:
  "negative (offset_param (history_query f)) = negative (offset f)"
  by (auto simp: offset_history_query truthy_def negative_def split: option.splits)

section \<open>Looking up the latest record\<close>

lemma take_one: "take (Suc 0) xs = (case xs of [] \<Rightarrow> [] | x # _ \<Rightarrow> [x])"
  by (cases xs) simp_all

lemma latest_first_empty [simp]: "latest_first [] = []"
  by (simp add: latest_first_def sort_rows_def)

lemma row_le_latest:
  "row_le stock_queries_column [(''from_date'', False)] x y = (from_date y \<le> from_date x)"
  by auto

lemma latest_first_Nil [simp]: "(latest_first rs = []) = (rs = [])"
  using length_sort_rows [of "row_le stock_queries_column [(''from_date'', False)]" rs]
  unfolding latest_first_def by (metis length_0_conv)

lemma set_latest_first [simp]: "set (latest_first rs) = set rs"
  by (simp add: latest_first_def set_sort_rows)

lemma latest_first_head:
  assumes "latest_first rs = m # ms"
  shows "m \<in> set rs \<and> (\<forall>r \<in> set rs. from_date r \<le> from_date m)"
proof -
  have "sorted_wrt (row_le stock_queries_column [(''from_date'', False)]) (latest_first rs)"
    unfolding latest_first_def by (rule sorted_rows)
  then have "sorted_wrt (\<lambda>x y. from_date y \<le> from_date x) (m # ms)"
    unfolding assms row_le_latest .
  then have "\<forall>r \<in> set ms. from_date r \<le> from_date m"
    by simp
  moreover have "set rs = insert m (set ms)"
    using set_latest_first [of rs] assms by simp
  ultimately show ?thesis by simp
qed

lemma select_latest:
  "run_select stock_queries_column (stock_queries s) None (latest_query e) =
     served (case latest_first (successes s e) of [] \<Rightarrow> [] | x # _ \<Rightarrow> [x]) None"
  by (simp add: run_select_def latest_query_def matching_def negative_def window_def take_one
        latest_first_def successes_def conj_commute)

lemma select_previous:
  "run_select stock_queries_column (stock_queries s) None (previous_query e d) =
     served (case latest_first (prior_records s e d) of [] \<Rightarrow> [] | x # _ \<Rightarrow> [x]) None"
  by (simp add: run_select_def previous_query_def matching_def negative_def window_def take_one
        latest_first_def prior_records_def conj_commute conj_left_commute)

lemma select_fault: "run_select col rows (Some err) q = failed err"
  by (simp add: run_select_def)

lemma latest_served:
  "getLatestStockQuery s None e = (case latest_first (successes s e) of [] \<Rightarrow> None | x # _ \<Rightarrow> Some x)"
  unfolding getLatestStockQuery_def select_latest
  by (cases "latest_first (successes s e)")
     (simp_all add: q_single_def served_def failed_def)

section \<open>Writing\<close>

lemma distinct_map_eq:
  "distinct (map f xs) \<Longrightarrow> x \<in> set xs \<Longrightarrow> y \<in> set xs \<Longrightarrow> f x = f y \<Longrightarrow> x = y"
  by (meson distinct_map inj_onD)

lemma filter_the_one:
  "distinct xs \<Longrightarrow> m \<in> set xs \<Longrightarrow> filter (\<lambda>r. r = m) xs = [m]"
proof (induction xs)
  case Nil
  then show ?case by simp
next
  case (Cons x xs)
  show ?case
  proof (cases "x = m")
    case True
    with Cons.prems have "m \<notin> set xs" by simp
    then have "filter (\<lambda>r. r = m) xs = []" by (auto simp: filter_empty_conv)
    with True show ?thesis by simp
  next
    case False
    with Cons show ?thesis by simp
  qed
qed

lemma filter_by_id:
  assumes "distinct (map row_id rows)" and "m \<in> set rows"
  shows "filter (\<lambda>r. row_id r = row_id m) rows = [m]"
proof -
  have "filter (\<lambda>r. row_id r = row_id m) rows = filter (\<lambda>r. r = m) rows"
    by (rule filter_cong [OF refl]) (use assms distinct_map_eq [of row_id rows] in auto)
  also have "\<dots> = [m]"
    using assms by (intro filter_the_one) (simp_all add: distinct_map)
  finally show ?thesis .
qed

lemma map_by_id:
  assumes "distinct (map row_id rows)" and "m \<in> set rows"
  shows "map (\<lambda>r. if row_id r = row_id m then change r else r) rows =
         map (\<lambda>r. if r = m then change r else r) rows"
  by (rule map_cong [OF refl]) (use assms distinct_map_eq [of row_id rows] in auto)

lemma update_by_id:
  "run_update stock_queries_column rows None [Eq ''id'' (Number i)] change =
     (map (\<lambda>r. if row_id r = i then change r else r) rows,
      served (map change (filter (\<lambda>r. row_id r = i) rows)) None)"
  by (simp add: run_update_def)

lemma update_fault: "run_update col rows (Some err) cs change = (rows, failed err)"
  by (simp add: run_update_def)

lemma previous_found:
  "q_single (project g (run_select stock_queries_column (stock_queries s) None (previous_query e d))) =
     (case latest_first (prior_records s e d) of
        [] \<Rightarrow> failed no_single_row | m # _ \<Rightarrow> served (g m) None)"
  unfolding select_previous
  by (cases "latest_first (prior_records s e d)")
     (simp_all add: q_single_def project_def served_def failed_def)

lemma previous_fault:
  "q_single (project g (run_select col rows (Some err) q)) = failed err"
  by (simp add: select_fault q_single_def project_def failed_def)

lemma update_none_found:
  assumes "prior_records s e d = []"
  shows "outcome (updatePreviousDayRealPrice s f1 f2 e d price) = Returned None \<and>
         db (updatePreviousDayRealPrice s f1 f2 e d price) = s"
proof (cases f1)
  case None
  with assms show ?thesis
    by (simp add: updatePreviousDayRealPrice_def previous_found failed_def)
next
  case (Some err)
  then show ?thesis
    by (simp add: updatePreviousDayRealPrice_def previous_fault failed_def)
qed

lemma update_lookup_fault:
  "db (updatePreviousDayRealPrice s (Some err) f2 e d price) = s \<and>
   outcome (updatePreviousDayRealPrice s (Some err) f2 e d price) = Returned None"
  by (simp add: updatePreviousDayRealPrice_def previous_fault failed_def)

lemma update_found:
  assumes "latest_first (prior_records s e d) = m # ms"
  shows "updatePreviousDayRealPrice s None f2 e d price =
     (case f2 of
        Some err \<Rightarrow>
          \<lparr>outcome = Returned None,
           console = [(''Error updating real_harga for '' @ e @ '' on '' @ from_date m @ '':'', err)],
           db = s\<rparr>
      | None \<Rightarrow>
          \<lparr>outcome = Returned (Some (map (\<lambda>r. r\<lparr>real_harga := Some price\<rparr>)
                                  (filter (\<lambda>r. row_id r = row_id m) (stock_queries s)))),
           console = [],
           db = s\<lparr>stock_queries :=
                   map (\<lambda>r. if row_id r = row_id m then r\<lparr>real_harga := Some price\<rparr> else r)
                     (stock_queries s)\<rparr>\<rparr>)"
  unfolding updatePreviousDayRealPrice_def previous_found assms
  by (cases f2) (simp_all add: served_def failed_def update_by_id update_fault)

lemma map_key_unchanged:
  assumes "\<And>r. r \<in> set rows \<Longrightarrow> k (g r) = k r"
  shows "map k (map g rows) = map k rows"
  using assms by (induction rows) simp_all

lemma upsert_stock_queries_keys:
  assumes "key_unique s" and "\<And>r. emiten (put r) = e \<and> from_date (put r) = d"
  shows "key_unique (fst (upsert_stock_queries s fault (Some d) e put))"
proof (cases fault)
  case (Some err)
  with assms(1) show ?thesis by (simp add: upsert_stock_queries_def)
next
  case None
  let ?k = "\<lambda>r. (emiten r, from_date r)"
  show ?thesis
  proof (cases "\<exists>r \<in> set (stock_queries s). from_date r = d \<and> emiten r = e")
    case True
    have same: "map ?k (map (\<lambda>r. if from_date r = d \<and> emiten r = e then put r else r) (stock_queries s))
            = map ?k (stock_queries s)"
      by (rule map_key_unchanged) (simp add: assms(2))
    from assms(1) True None show ?thesis
      by (simp add: upsert_stock_queries_def key_unique_def same del: map_map)
  next
    case False
    then have "(e, d) \<notin> set (map ?k (stock_queries s))" by auto
    with assms False None show ?thesis
      by (auto simp: upsert_stock_queries_def key_unique_def)
  qed
qed

lemma upsert_session_keys:
  assumes "key_unique s"
  shows "key_unique (fst (upsert_session_table s fault entry))"
proof (cases fault)
  case (Some err)
  with assms show ?thesis by (simp add: upsert_session_table_def)
next
  case None
  show ?thesis
  proof (cases "\<exists>x \<in> set (session s). key x = key entry")
    case True
    have same: "map key (map (\<lambda>x. if key x = key entry then entry else x) (session s)) = map key (session s)"
      by (rule map_key_unchanged) simp
    from assms True None show ?thesis
      by (simp add: upsert_session_table_def key_unique_def same del: map_map)
  next
    case False
    then have "key entry \<notin> set (map key (session s))" by auto
    with assms False None show ?thesis
      by (auto simp: upsert_session_table_def key_unique_def)
  qed
qed

lemma db_saveStockQuery:
  "db (saveStockQuery s fault d) =
     fst (upsert_stock_queries s fault (stock_query_data.from_date d) (stock_query_data.emiten d)
            (case stock_query_data.from_date d of None \<Rightarrow> (\<lambda>r. r)
             | Some date \<Rightarrow> put_stock_query_data d date))"
  by (simp add: saveStockQuery_def split: prod.splits option.splits)

lemma db_saveWatchlistAnalysis:
  "db (saveWatchlistAnalysis s fault d) =
     fst (upsert_stock_queries s fault (Some (watchlist_analysis.from_date d))
            (watchlist_analysis.emiten d) (put_watchlist_analysis d))"
  by (simp add: saveWatchlistAnalysis_def split: prod.splits option.splits)

lemma db_upsertSession:
  "db (upsertSession s fault now k v) =
     fst (upsert_session_table s fault \<lparr>key = k, session_value = v, updated_at = now\<rparr>)"
  by (simp add: upsertSession_def split: prod.splits option.splits)

lemma upsert_without_date: "fst (upsert_stock_queries s fault None e put) = s"
  by (simp add: upsert_stock_queries_def split: option.splits)

lemma db_update:
  "db (updatePreviousDayRealPrice s f1 f2 e d price) = s \<or>
   (\<exists>i. db (updatePreviousDayRealPrice s f1 f2 e d price) =
      s\<lparr>stock_queries :=
          map (\<lambda>r. if row_id r = i then r\<lparr>real_harga := Some price\<rparr> else r) (stock_queries s)\<rparr>)"
proof (cases f1)
  case (Some err)
  then show ?thesis using update_lookup_fault [of s err f2 e d price] by simp
next
  case None
  show ?thesis
  proof (cases "latest_first (prior_records s e d)")
    case Nil
    then have "prior_records s e d = []" by simp
    then show ?thesis using update_none_found by blast
  next
    case (Cons m ms)
    show ?thesis
      unfolding None update_found [OF Cons] by (cases f2) auto
  qed
qed

section \<open>Properties of the history function\<close>

text \<open>
  C1. With \<open>sortBy = "emiten"\<close> the returned rows are ordered by ticker in the requested
  direction (descending unless \<open>asc\<close> is asked for), and rows of the same ticker by
  \<open>from_date\<close> ascending, whatever the requested direction.
\<close>

theorem history_sorted_by_emiten:
  assumes "sortBy f = Some ''emiten''"
      and "outcome (getWatchlistAnalysisHistory s fault f) = Returned (Some rows, n)"
  shows "sorted_wrt (emiten_then_date (sortOrder f = Some Asc)) rows"
proof -
  let ?ks = "[(''emiten'', sortOrder f = Some Asc), (''from_date'', True)]"
  from history_returned [OF assms(2)]
  have rows: "rows = window (history_query f)
                (sort_rows (row_le stock_queries_column (sort_keys f))
                   (filter (satisfies f) (stock_queries s)))"
    by simp
  have "sorted_wrt (row_le stock_queries_column ?ks) rows"
    unfolding rows sort_keys_emiten [OF assms(1)]
    by (intro sorted_wrt_window sorted_rows)
  then show ?thesis
    by (rule sorted_wrt_weaken) (rule row_le_emiten_date)
qed

theorem history_sorted_by_emiten_witness:
  "sortBy (no_filters\<lparr>sortBy := Some ''emiten'', sortOrder := Some Desc\<rparr>) = Some ''emiten'' \<and>
   outcome (getWatchlistAnalysisHistory fixture None
              (no_filters\<lparr>sortBy := Some ''emiten'', sortOrder := Some Desc\<rparr>))
     = Returned (Some [bbca_1, bbca_2, antm_1, antm_2], Some 4) \<and>
   sorted_wrt (emiten_then_date False) [bbca_1, bbca_2, antm_1, antm_2]"
proof -
  let ?f = "no_filters\<lparr>sortBy := Some ''emiten'', sortOrder := Some Desc\<rparr>"
  have a: "sortBy ?f = Some ''emiten''"
    by simp
  have b: "outcome (getWatchlistAnalysisHistory fixture None ?f)
             = Returned (Some [bbca_1, bbca_2, antm_1, antm_2], Some 4)"
    by code_simp
  have "sorted_wrt (emiten_then_date (sortOrder ?f = Some Asc)) [bbca_1, bbca_2, antm_1, antm_2]"
    by (rule history_sorted_by_emiten [OF a b])
  then have "sorted_wrt (emiten_then_date False) [bbca_1, bbca_2, antm_1, antm_2]"
    by simp
  with a b show ?thesis by (intro conjI)
qed

text \<open>
  C4. With \<open>sortBy = "combined"\<close> the returned rows are ordered by \<open>from_date\<close> and rows of
  the same date by ticker, both in the requested direction; for \<open>asc\<close> this is the one
  ascending order of the pairs (from_date, emiten).
\<close>

theorem history_sorted_combined:
  assumes "sortBy f = Some ''combined''"
      and "outcome (getWatchlistAnalysisHistory s fault f) = Returned (Some rows, n)"
  shows "sorted_wrt (date_then_emiten (sortOrder f = Some Asc)) rows \<and>
         (sortOrder f = Some Asc \<longrightarrow>
            sorted_wrt (\<lambda>x y. from_date x < from_date y \<or>
                               (from_date x = from_date y \<and> emiten x \<le> emiten y)) rows)"
proof -
  let ?ks = "[(''from_date'', sortOrder f = Some Asc), (''emiten'', sortOrder f = Some Asc)]"
  from history_returned [OF assms(2)]
  have rows: "rows = window (history_query f)
                (sort_rows (row_le stock_queries_column (sort_keys f))
                   (filter (satisfies f) (stock_queries s)))"
    by simp
  have "sorted_wrt (row_le stock_queries_column ?ks) rows"
    unfolding rows sort_keys_combined [OF assms(1)]
    by (intro sorted_wrt_window sorted_rows)
  then have sorted: "sorted_wrt (date_then_emiten (sortOrder f = Some Asc)) rows"
    by (rule sorted_wrt_weaken) (rule row_le_date_emiten)
  moreover have "sorted_wrt (\<lambda>x y. from_date x < from_date y \<or>
                               (from_date x = from_date y \<and> emiten x \<le> emiten y)) rows"
    if "sortOrder f = Some Asc"
    using sorted that by (simp add: date_then_emiten_def [abs_def])
  ultimately show ?thesis by blast
qed

theorem history_sorted_combined_witness:
  "sortBy (no_filters\<lparr>sortBy := Some ''combined'', sortOrder := Some Asc\<rparr>) = Some ''combined'' \<and>
   outcome (getWatchlistAnalysisHistory fixture None
              (no_filters\<lparr>sortBy := Some ''combined'', sortOrder := Some Asc\<rparr>))
     = Returned (Some [antm_1, bbca_1, antm_2, bbca_2], Some 4) \<and>
   sorted_wrt (\<lambda>x y. from_date x < from_date y \<or> (from_date x = from_date y \<and> emiten x \<le> emiten y))
     [antm_1, bbca_1, antm_2, bbca_2]"
proof -
  let ?f = "no_filters\<lparr>sortBy := Some ''combined'', sortOrder := Some Asc\<rparr>"
  have a: "sortBy ?f = Some ''combined''"
    by simp
  have b: "outcome (getWatchlistAnalysisHistory fixture None ?f)
             = Returned (Some [antm_1, bbca_1, antm_2, bbca_2], Some 4)"
    by code_simp
  have c: "sortOrder ?f = Some Asc"
    by simp
  from history_sorted_combined [OF a b] c
  have "sorted_wrt (\<lambda>x y. from_date x < from_date y \<or> (from_date x = from_date y \<and> emiten x \<le> emiten y))
          [antm_1, bbca_1, antm_2, bbca_2]"
    by blast
  with a b show ?thesis by (intro conjI)
qed

text \<open>
  C10. When the history function returns, its count is the number of records in the store
  that the filters select. The count does not look at \<open>limit\<close> and \<open>offset\<close>: the same
  call with any other limit and offset, when it returns, returns the same count.
\<close>

theorem history_count:
  assumes "outcome (getWatchlistAnalysisHistory s fault f) = Returned (rows, n)"
  shows "n = Some (length (filter (satisfies f) (stock_queries s))) \<and>
         (\<forall>fault' l off rows' n'.
            outcome (getWatchlistAnalysisHistory s fault' (f\<lparr>limit := l, offset := off\<rparr>))
              = Returned (rows', n') \<longrightarrow> n' = n)"
proof -
  have n: "n = Some (length (filter (satisfies f) (stock_queries s)))"
    using history_returned [OF assms] by simp
  have "n' = n"
    if "outcome (getWatchlistAnalysisHistory s fault' (f\<lparr>limit := l, offset := off\<rparr>))
          = Returned (rows', n')"
    for fault' l off rows' n'
  proof -
    have "satisfies (f\<lparr>limit := l, offset := off\<rparr>) = satisfies f"
      by (rule ext) (simp add: satisfies_def)
    with history_returned [OF that] n show ?thesis by simp
  qed
  with n show ?thesis by blast
qed


theorem history_count_witness:
  "outcome (getWatchlistAnalysisHistory fixture None
              (no_filters\<lparr>filters.status := Some ''success'', limit := Some 1\<rparr>))
     = Returned (Some [bbca_2], Some 3) \<and>
   Some 3 = Some (length (filter (satisfies (no_filters\<lparr>filters.status := Some ''success'', limit := Some 1\<rparr>))
                     (stock_queries fixture))) \<and>
   outcome (getWatchlistAnalysisHistory fixture None
              (no_filters\<lparr>filters.status := Some ''success'', limit := Some 1, limit := None, offset := Some 1\<rparr>))
     = Returned (Some [bbca_1, antm_1], Some 3)"
proof -
  let ?f = "no_filters\<lparr>filters.status := Some ''success'', limit := Some 1\<rparr>"
  have a: "outcome (getWatchlistAnalysisHistory fixture None ?f) = Returned (Some [bbca_2], Some 3)"
    by code_simp
  have b: "outcome (getWatchlistAnalysisHistory fixture None (?f\<lparr>limit := None, offset := Some 1\<rparr>))
             = Returned (Some [bbca_1, antm_1], Some 3)"
    by code_simp
  from history_count [OF a]
  have "Some 3 = Some (length (filter (satisfies ?f) (stock_queries fixture)))"
    by blast
  with a b show ?thesis by (intro conjI)
qed

text \<open>
  C3. An \<open>emiten\<close> filter made of white space only, or one that splits into no ticker at
  all, filters nothing: the call does exactly what the call without the filter does.
\<close>

theorem blank_emiten_filter_is_no_filter:
  assumes "(\<forall>c \<in> set e. is_space c) \<or> filter (\<lambda>t. t \<noteq> []) (split_space e) = []"
  shows "getWatchlistAnalysisHistory s fault (f\<lparr>filters.emiten := Some e\<rparr>) =
         getWatchlistAnalysisHistory s fault (f\<lparr>filters.emiten := None\<rparr>)"
proof -
  from assms have "tickers e = []"
    using tickers_Nil_iff [of e] by (auto simp: tickers_def)
  then show ?thesis
    by (simp add: getWatchlistAnalysisHistory_def history_query_blank_emiten)
qed

theorem blank_emiten_filter_is_no_filter_witness:
  "((\<forall>c \<in> set ''  ''. is_space c) \<or> filter (\<lambda>t. t \<noteq> []) (split_space ''  '') = []) \<and>
   getWatchlistAnalysisHistory fixture None (no_filters\<lparr>filters.emiten := Some ''  ''\<rparr>) =
   getWatchlistAnalysisHistory fixture None (no_filters\<lparr>filters.emiten := None\<rparr>) \<and>
   outcome (getWatchlistAnalysisHistory fixture None (no_filters\<lparr>filters.emiten := Some ''  ''\<rparr>))
     = Returned (Some [antm_2, bbca_2, bbca_1, antm_1], Some 4)"
proof -
  have a: "(\<forall>c \<in> set ''  ''. is_space c) \<or> filter (\<lambda>t. t \<noteq> []) (split_space ''  '') = []"
    by (simp add: is_space_def)
  have b: "outcome (getWatchlistAnalysisHistory fixture None (no_filters\<lparr>filters.emiten := None\<rparr>))
             = Returned (Some [antm_2, bbca_2, bbca_1, antm_1], Some 4)"
    by code_simp
  note c = blank_emiten_filter_is_no_filter [OF a, of fixture None no_filters]
  from a b c show ?thesis by simp
qed

text \<open>
  C5. Filters are combined with "and", before any window is cut. For every two sets of
  filters that give no filter twice (sector and status, fromDate and toDate, emiten and
  sector together with status, ...) and calls without limit and offset: when the call with
  the one set and the call with the other set return, the call with both sets, once
  served, returns exactly the rows that both of them return.
\<close>

theorem filters_compose_conjunctively:
  assumes "limit f = None" and "offset f = None" and "limit g = None" and "offset g = None"
      and "apart f g"
      and "outcome (getWatchlistAnalysisHistory s fault1 f) = Returned (Some rf, n1)"
      and "outcome (getWatchlistAnalysisHistory s fault2 g) = Returned (Some rg, n2)"
  shows "\<exists>rows n. outcome (getWatchlistAnalysisHistory s None (both f g)) = Returned (Some rows, n) \<and>
           set rows = set rf \<inter> set rg"
proof -
  let ?fg = "both f g"
  note rf = history_returned [OF assms(6)] and rg = history_returned [OF assms(7)]
  have unpaged: "limit ?fg = None" "offset ?fg = None"
    using assms(1,2) by (simp_all add: both_def)
  have set_rf: "set rf = {r \<in> set (stock_queries s). satisfies f r}"
    using rf by (simp add: window_unpaged [OF assms(1,2)] set_sort_rows)
  have set_rg: "set rg = {r \<in> set (stock_queries s). satisfies g r}"
    using rg by (simp add: window_unpaged [OF assms(3,4)] set_sort_rows)
  have "sortable f" using rf by simp
  then have sortable: "sortable ?fg"
    using sortable_cong [of f ?fg] by (simp add: both_def)
  have out: "outcome (getWatchlistAnalysisHistory s None ?fg) =
          Returned (Some (sort_rows (row_le stock_queries_column (sort_keys ?fg))
                      (filter (satisfies ?fg) (stock_queries s))),
                    Some (length (filter (satisfies ?fg) (stock_queries s))))"
    unfolding history_served
    using sortable not_negative_unpaged [OF unpaged]
    by (simp add: window_unpaged [OF unpaged])
  have "set (sort_rows (row_le stock_queries_column (sort_keys ?fg))
          (filter (satisfies ?fg) (stock_queries s))) = set rf \<inter> set rg"
    unfolding set_rf set_rg set_sort_rows
    using satisfies_both [OF assms(5)] by auto
  with out show ?thesis by blast
qed

theorem filters_compose_conjunctively_witness:
  "apart (by_id\<lparr>filters.sector := Some ''bank''\<rparr>) (by_id\<lparr>filters.status := Some ''success''\<rparr>) \<and>
   both (by_id\<lparr>filters.sector := Some ''bank''\<rparr>) (by_id\<lparr>filters.status := Some ''success''\<rparr>)
     = by_id\<lparr>filters.sector := Some ''bank'', filters.status := Some ''success''\<rparr> \<and>
   outcome (getWatchlistAnalysisHistory fixture None (by_id\<lparr>filters.sector := Some ''bank''\<rparr>))
     = Returned (Some [bbca_1, bbca_2], Some 2) \<and>
   outcome (getWatchlistAnalysisHistory fixture None (by_id\<lparr>filters.status := Some ''success''\<rparr>))
     = Returned (Some [bbca_1, bbca_2, antm_1], Some 3) \<and>
   (\<exists>rows n. outcome (getWatchlistAnalysisHistory fixture None
                        (by_id\<lparr>filters.sector := Some ''bank'', filters.status := Some ''success''\<rparr>))
                = Returned (Some rows, n) \<and>
              set rows = set [bbca_1, bbca_2] \<inter> set [bbca_1, bbca_2, antm_1]) \<and>
   apart (by_id\<lparr>fromDate := Some ''2024-01-02''\<rparr>) (by_id\<lparr>toDate := Some ''2024-01-02''\<rparr>) \<and>
   both (by_id\<lparr>fromDate := Some ''2024-01-02''\<rparr>) (by_id\<lparr>toDate := Some ''2024-01-02''\<rparr>)
     = by_id\<lparr>fromDate := Some ''2024-01-02'', toDate := Some ''2024-01-02''\<rparr> \<and>
   outcome (getWatchlistAnalysisHistory fixture None (by_id\<lparr>fromDate := Some ''2024-01-02''\<rparr>))
     = Returned (Some [bbca_2, antm_2], Some 2) \<and>
   outcome (getWatchlistAnalysisHistory fixture None (by_id\<lparr>toDate := Some ''2024-01-02''\<rparr>))
     = Returned (Some [bbca_1, bbca_2, antm_1, antm_2], Some 4) \<and>
   (\<exists>rows n. outcome (getWatchlistAnalysisHistory fixture None
                        (by_id\<lparr>fromDate := Some ''2024-01-02'', toDate := Some ''2024-01-02''\<rparr>))
                = Returned (Some rows, n) \<and>
              set rows = set [bbca_2, antm_2] \<inter> set [bbca_1, bbca_2, antm_1, antm_2])"
proof -
  let ?f = "by_id\<lparr>filters.sector := Some ''bank''\<rparr>"
  let ?g = "by_id\<lparr>filters.status := Some ''success''\<rparr>"
  let ?f' = "by_id\<lparr>fromDate := Some ''2024-01-02''\<rparr>"
  let ?g' = "by_id\<lparr>toDate := Some ''2024-01-02''\<rparr>"
  have a: "limit ?f = None" "offset ?f = None" "limit ?g = None" "offset ?g = None"
    and a': "limit ?f' = None" "offset ?f' = None" "limit ?g' = None" "offset ?g' = None"
    by (simp_all add: by_id_def no_filters_def)
  have b: "apart ?f ?g" and b': "apart ?f' ?g'"
    by code_simp+
  have c: "both ?f ?g = by_id\<lparr>filters.sector := Some ''bank'', filters.status := Some ''success''\<rparr>"
    and c': "both ?f' ?g' = by_id\<lparr>fromDate := Some ''2024-01-02'', toDate := Some ''2024-01-02''\<rparr>"
    by code_simp+
  have d: "outcome (getWatchlistAnalysisHistory fixture None ?f) = Returned (Some [bbca_1, bbca_2], Some 2)"
    by code_simp
  have e: "outcome (getWatchlistAnalysisHistory fixture None ?g)
             = Returned (Some [bbca_1, bbca_2, antm_1], Some 3)"
    by code_simp
  have d': "outcome (getWatchlistAnalysisHistory fixture None ?f') = Returned (Some [bbca_2, antm_2], Some 2)"
    by code_simp
  have e': "outcome (getWatchlistAnalysisHistory fixture None ?g')
             = Returned (Some [bbca_1, bbca_2, antm_1, antm_2], Some 4)"
    by code_simp
  note first = filters_compose_conjunctively [OF a b d e, unfolded c]
  note second = filters_compose_conjunctively [OF a' b' d' e', unfolded c']
  from b c d e first b' c' d' e' second show ?thesis by (intro conjI)
qed


text \<open>
  C2, as the code has it. Take a call with an offset that returns. Its count is the
  number of rows the filters select, and there is an arrangement of exactly these rows,
  sorted by the sort keys of the call, such that: when the offset is not zero, or a limit
  other than zero is given, the returned rows are the window
  \<open>[offset, offset + (limit or 50) - 1]\<close> of it (so \<open>limit = 10, offset = 20\<close> returns the rows
  21 to 30, and \<open>offset = 20\<close> alone a window of 50 rows); when the offset is zero and no
  limit is given, all the rows are returned. When no two of the rows tie on the sort keys,
  the arrangement is the list that the same call without limit and offset returns. A call
  that the store serves, with a sort column the table has and no negative offset or limit,
  does return.
\<close>

theorem history_window:
  assumes "offset f = Some off"
  shows "(\<forall>rows n. outcome (getWatchlistAnalysisHistory s fault f) = Returned (Some rows, n) \<longrightarrow>
            (\<exists>result.
               (\<forall>r. count_list result r = count_list (filter (satisfies f) (stock_queries s)) r) \<and>
               sorted_wrt (row_le stock_queries_column (orders (history_query f))) result \<and>
               n = Some (length result) \<and>
               (off \<noteq> 0 \<or> (\<exists>l. limit f = Some l \<and> l \<noteq> 0) \<longrightarrow>
                  rows = page_window off (limit f) result) \<and>
               (off = 0 \<and> (limit f = None \<or> limit f = Some 0) \<longrightarrow> rows = result) \<and>
               ((\<forall>x \<in> set result. \<forall>y \<in> set result.
                    row_le stock_queries_column (orders (history_query f)) x y \<and>
                    row_le stock_queries_column (orders (history_query f)) y x \<longrightarrow> x = y) \<longrightarrow>
                (\<forall>fault' unpaged n'.
                    outcome (getWatchlistAnalysisHistory s fault' (f\<lparr>limit := None, offset := None\<rparr>))
                      = Returned (Some unpaged, n') \<longrightarrow> unpaged = result)))) \<and>
         (fault = None \<and> 0 \<le> off \<and> \<not> negative (limit f) \<and>
          (\<forall>k \<in> set (orders (history_query f)). stock_queries_column (fst k) \<noteq> None) \<longrightarrow>
            (\<exists>rows n. outcome (getWatchlistAnalysisHistory s fault f) = Returned (Some rows, n)))"
proof (rule conjI)
  let ?le = "row_le stock_queries_column (orders (history_query f))"
  let ?matching = "filter (satisfies f) (stock_queries s)"
  let ?result = "sort_rows ?le ?matching"
  show "\<forall>rows n. outcome (getWatchlistAnalysisHistory s fault f) = Returned (Some rows, n) \<longrightarrow>
            (\<exists>result.
               (\<forall>r. count_list result r = count_list ?matching r) \<and>
               sorted_wrt ?le result \<and>
               n = Some (length result) \<and>
               (off \<noteq> 0 \<or> (\<exists>l. limit f = Some l \<and> l \<noteq> 0) \<longrightarrow>
                  rows = page_window off (limit f) result) \<and>
               (off = 0 \<and> (limit f = None \<or> limit f = Some 0) \<longrightarrow> rows = result) \<and>
               ((\<forall>x \<in> set result. \<forall>y \<in> set result. ?le x y \<and> ?le y x \<longrightarrow> x = y) \<longrightarrow>
                (\<forall>fault' unpaged n'.
                    outcome (getWatchlistAnalysisHistory s fault' (f\<lparr>limit := None, offset := None\<rparr>))
                      = Returned (Some unpaged, n') \<longrightarrow> unpaged = result)))"
  proof (intro allI impI)
    fix rows n
    assume returned: "outcome (getWatchlistAnalysisHistory s fault f) = Returned (Some rows, n)"
    note r = history_returned [OF returned]
    have rows: "rows = window (history_query f) ?result"
      using r by (simp add: orders_history_query)
    have counts: "\<forall>r. count_list ?result r = count_list ?matching r"
      by (simp add: count_list_sort_rows)
    have sorted: "sorted_wrt ?le ?result"
      by (rule sorted_rows)
    have n: "n = Some (length ?result)"
      using r by (simp add: length_sort_rows)
    have page: "off \<noteq> 0 \<or> (\<exists>l. limit f = Some l \<and> l \<noteq> 0) \<longrightarrow>
                  rows = page_window off (limit f) ?result"
      unfolding rows using window_of_history_query(1) [OF assms] by blast
    have whole: "off = 0 \<and> (limit f = None \<or> limit f = Some 0) \<longrightarrow> rows = ?result"
      unfolding rows using window_of_history_query(2) [OF assms] by blast
    have same: "unpaged = ?result"
      if ties: "\<forall>x \<in> set ?result. \<forall>y \<in> set ?result. ?le x y \<and> ?le y x \<longrightarrow> x = y"
        and other: "outcome (getWatchlistAnalysisHistory s fault' (f\<lparr>limit := None, offset := None\<rparr>))
                      = Returned (Some unpaged, n')"
      for fault' unpaged n'
    proof -
      let ?g = "f\<lparr>limit := None, offset := None\<rparr>"
      note u = history_returned [OF other]
      have sat: "satisfies ?g = satisfies f" by (rule ext) (simp add: satisfies_def)
      have keys: "sort_keys ?g = orders (history_query f)"
        by (simp add: orders_history_query sort_keys_def)
      have unpaged: "unpaged = sort_rows ?le ?matching"
        using u by (simp add: window_unpaged sat keys)
      have "sorted_wrt ?le unpaged"
        unfolding unpaged by (rule sorted_rows)
      moreover have "\<forall>r. count_list ?result r = count_list unpaged r"
        unfolding unpaged by simp
      ultimately show ?thesis
        using sorted_arrangement_unique [OF sorted _ _ ties, of unpaged] by simp
    qed
    from counts sorted n page whole same
    show "\<exists>result.
               (\<forall>r. count_list result r = count_list ?matching r) \<and>
               sorted_wrt ?le result \<and>
               n = Some (length result) \<and>
               (off \<noteq> 0 \<or> (\<exists>l. limit f = Some l \<and> l \<noteq> 0) \<longrightarrow>
                  rows = page_window off (limit f) result) \<and>
               (off = 0 \<and> (limit f = None \<or> limit f = Some 0) \<longrightarrow> rows = result) \<and>
               ((\<forall>x \<in> set result. \<forall>y \<in> set result. ?le x y \<and> ?le y x \<longrightarrow> x = y) \<longrightarrow>
                (\<forall>fault' unpaged n'.
                    outcome (getWatchlistAnalysisHistory s fault' (f\<lparr>limit := None, offset := None\<rparr>))
                      = Returned (Some unpaged, n') \<longrightarrow> unpaged = result))"
      by (intro exI [of _ ?result]) blast
  qed
next
  show "fault = None \<and> 0 \<le> off \<and> \<not> negative (limit f) \<and>
          (\<forall>k \<in> set (orders (history_query f)). stock_queries_column (fst k) \<noteq> None) \<longrightarrow>
            (\<exists>rows n. outcome (getWatchlistAnalysisHistory s fault f) = Returned (Some rows, n))"
  proof (intro impI, elim conjE)
    assume served: "fault = None" and off: "0 \<le> off" and lim: "\<not> negative (limit f)"
      and cols: "\<forall>k \<in> set (orders (history_query f)). stock_queries_column (fst k) \<noteq> None"
    have "sortable f"
      using cols by (simp add: sortable_def orders_history_query)
    moreover have "\<not> negative (offset_param (history_query f))"
      unfolding negative_offset_param using off assms by (simp add: negative_def)
    moreover have "\<not> negative (limit_param (history_query f))"
      unfolding negative_limit_param using lim .
    ultimately show "\<exists>rows n. outcome (getWatchlistAnalysisHistory s fault f) = Returned (Some rows, n)"
      unfolding served history_served by simp
  qed
qed


theorem history_window_witness:
  "offset (by_id\<lparr>limit := Some 10, offset := Some 20\<rparr>) = Some 20 \<and>
   outcome (getWatchlistAnalysisHistory many_store None (by_id\<lparr>limit := Some 10, offset := Some 20\<rparr>))
     = Returned (Some (page_window 20 (Some 10) many_rows), Some 51) \<and>
   map row_id (page_window 20 (Some 10) many_rows) = [21, 22, 23, 24, 25, 26, 27, 28, 29, 30] \<and>
   (\<exists>result.
      (\<forall>r. count_list result r =
             count_list (filter (satisfies (by_id\<lparr>limit := Some 10, offset := Some 20\<rparr>))
                           (stock_queries many_store)) r) \<and>
      sorted_wrt (row_le stock_queries_column
                    (orders (history_query (by_id\<lparr>limit := Some 10, offset := Some 20\<rparr>)))) result \<and>
      Some 51 = Some (length result) \<and>
      page_window 20 (Some 10) many_rows = page_window 20 (Some 10) result) \<and>
   offset (by_id\<lparr>limit := Some 10, offset := Some 0\<rparr>) = Some 0 \<and>
   outcome (getWatchlistAnalysisHistory many_store None (by_id\<lparr>limit := Some 10, offset := Some 0\<rparr>))
     = Returned (Some (page_window 0 (Some 10) many_rows), Some 51) \<and>
   map row_id (page_window 0 (Some 10) many_rows) = [1, 2, 3, 4, 5, 6, 7, 8, 9, 10] \<and>
   (\<exists>result.
      sorted_wrt (row_le stock_queries_column
                    (orders (history_query (by_id\<lparr>limit := Some 10, offset := Some 0\<rparr>)))) result \<and>
      page_window 0 (Some 10) many_rows = page_window 0 (Some 10) result)"
proof -
  let ?f = "by_id\<lparr>limit := Some 10, offset := Some 20\<rparr>"
  let ?g = "by_id\<lparr>limit := Some 10, offset := Some 0\<rparr>"
  have a: "offset ?f = Some 20" and a': "offset ?g = Some 0"
    by simp_all
  have l: "limit ?f = Some 10" and l': "limit ?g = Some 10"
    by (simp_all add: by_id_def)
  have nz: "(20 :: number) \<noteq> 0" "(10 :: number) \<noteq> 0"
    by simp_all
  have b: "outcome (getWatchlistAnalysisHistory many_store None ?f)
             = Returned (Some (page_window 20 (Some 10) many_rows), Some 51)"
    by code_simp
  have b': "outcome (getWatchlistAnalysisHistory many_store None ?g)
             = Returned (Some (page_window 0 (Some 10) many_rows), Some 51)"
    by code_simp
  have c: "map row_id (page_window 20 (Some 10) many_rows) = [21, 22, 23, 24, 25, 26, 27, 28, 29, 30]"
    by code_simp
  have c': "map row_id (page_window 0 (Some 10) many_rows) = [1, 2, 3, 4, 5, 6, 7, 8, 9, 10]"
    by code_simp
  note page = history_window [OF a, where s = many_store and fault = None]
  note first = history_window [OF a', where s = many_store and fault = None]
  from page b nz l
  have d: "\<exists>result.
      (\<forall>r. count_list result r = count_list (filter (satisfies ?f) (stock_queries many_store)) r) \<and>
      sorted_wrt (row_le stock_queries_column (orders (history_query ?f))) result \<and>
      Some 51 = Some (length result) \<and>
      page_window 20 (Some 10) many_rows = page_window 20 (Some 10) result"
    by metis
  from first b' nz l'
  have d': "\<exists>result.
      sorted_wrt (row_le stock_queries_column (orders (history_query ?g))) result \<and>
      page_window 0 (Some 10) many_rows = page_window 0 (Some 10) result"
    by metis
  from a b c d a' b' c' d' show ?thesis by (intro conjI)
qed

text \<open>
  The claim C2 as the specification words it fails for \<open>offset = 0\<close> without a limit: zero
  does not pass the test \<^verbatim>\<open>if (filters?.offset)\<close>, no range is set, and all 51 rows of the
  store come back, where a window \<open>[0, 49]\<close> has 50.
\<close>

theorem history_window_counterexample:
  "offset (by_id\<lparr>offset := Some 0\<rparr>) = Some 0 \<and>
   limit (by_id\<lparr>offset := Some 0\<rparr>) = None \<and>
   outcome (getWatchlistAnalysisHistory many_store None (by_id\<lparr>offset := Some 0\<rparr>))
     = Returned (Some many_rows, Some 51) \<and>
   length many_rows = 51 \<and>
   length (page_window 0 (limit (by_id\<lparr>offset := Some 0\<rparr>)) many_rows) = 50"
  by code_simp


text \<open>The ids stay a primary key below the counter as well.\<close>

lemma upsert_stock_queries_ids:
  assumes "ids_unique s" and "\<And>r. row_id (put r) = row_id r"
  shows "ids_unique (fst (upsert_stock_queries s fault date e put))"
proof (cases "fault = None \<and> date \<noteq> None")
  case False
  with assms(1) show ?thesis
    by (auto simp: upsert_stock_queries_def split: option.splits)
next
  case True
  then obtain d where date: "date = Some d" and fault: "fault = None" by auto
  show ?thesis
  proof (cases "\<exists>r \<in> set (stock_queries s). from_date r = d \<and> emiten r = e")
    case True
    have same: "map row_id (map (\<lambda>r. if from_date r = d \<and> emiten r = e then put r else r) (stock_queries s))
            = map row_id (stock_queries s)"
      by (rule map_key_unchanged) (simp add: assms(2))
    have "\<forall>r \<in> set (stock_queries s).
            row_id (if from_date r = d \<and> emiten r = e then put r else r) < next_id s"
      using assms by (simp add: ids_unique_def)
    with assms True date fault show ?thesis
      by (auto simp: upsert_stock_queries_def ids_unique_def same simp del: map_map)
  next
    case False
    have "next_id s \<notin> set (map row_id (stock_queries s))"
      using assms(1) by (auto simp: ids_unique_def)
    with assms False date fault show ?thesis
      by (auto simp: upsert_stock_queries_def ids_unique_def blank_row_def)
  qed
qed

lemma writes_keep_ids_unique:
  assumes "ids_unique s"
  shows "ids_unique (db (saveStockQuery s fault d))"
    and "ids_unique (db (saveWatchlistAnalysis s fault w))"
    and "ids_unique (db (upsertSession s fault now k v))"
    and "ids_unique (db (updatePreviousDayRealPrice s fault fault' e date price))"
proof -
  show "ids_unique (db (saveStockQuery s fault d))"
    unfolding db_saveStockQuery
    by (rule upsert_stock_queries_ids [OF assms])
       (simp add: put_stock_query_data_def split: option.splits)
  show "ids_unique (db (saveWatchlistAnalysis s fault w))"
    unfolding db_saveWatchlistAnalysis
    by (rule upsert_stock_queries_ids [OF assms]) (simp add: put_watchlist_analysis_def)
  show "ids_unique (db (upsertSession s fault now k v))"
    using assms unfolding db_upsertSession
    by (auto simp: upsert_session_table_def ids_unique_def split: option.splits)
  show "ids_unique (db (updatePreviousDayRealPrice s fault fault' e date price))"
  proof -
    have "ids_unique (s\<lparr>stock_queries :=
            map (\<lambda>r. if row_id r = i then r\<lparr>real_harga := Some price\<rparr> else r) (stock_queries s)\<rparr>)"
      for i
    proof -
      have same: "map row_id
              (map (\<lambda>r. if row_id r = i then r\<lparr>real_harga := Some price\<rparr> else r) (stock_queries s))
            = map row_id (stock_queries s)"
        by (rule map_key_unchanged) simp
      from assms show ?thesis by (auto simp: ids_unique_def same simp del: map_map)
    qed
    with assms db_update [of s fault fault' e date price] show ?thesis by auto
  qed
qed

section \<open>Properties of the lookups and the writes\<close>

text \<open>
  C7. The latest-record lookup returns null when the query fails and null when the ticker
  has no successful record, so the caller cannot tell the two apart; otherwise it returns
  a successful record of the ticker that no other successful record of the ticker is more
  recent than.
\<close>

theorem latest_record_or_null:
  "getLatestStockQuery s (Some err) e = None \<and>
   (successes s e = [] \<longrightarrow> getLatestStockQuery s None e = None) \<and>
   (successes s e \<noteq> [] \<longrightarrow>
      (\<exists>r \<in> set (successes s e). getLatestStockQuery s None e = Some r \<and>
         (\<forall>r' \<in> set (successes s e). from_date r' \<le> from_date r)))"
proof (intro conjI impI)
  show "getLatestStockQuery s (Some err) e = None"
    by (simp add: getLatestStockQuery_def select_fault q_single_def failed_def)
next
  assume "successes s e = []"
  then show "getLatestStockQuery s None e = None"
    by (simp add: latest_served)
next
  assume "successes s e \<noteq> []"
  then obtain m ms where m: "latest_first (successes s e) = m # ms"
    by (cases "latest_first (successes s e)") simp_all
  from latest_first_head [OF m] m
  show "\<exists>r \<in> set (successes s e). getLatestStockQuery s None e = Some r \<and>
         (\<forall>r' \<in> set (successes s e). from_date r' \<le> from_date r)"
    by (auto simp: latest_served)
qed

theorem latest_record_or_null_witness:
  "successes fixture ''TLKM'' = [] \<and>
   getLatestStockQuery fixture None ''TLKM'' = None \<and>
   getLatestStockQuery fixture (Some unreachable) ''TLKM'' = None \<and>
   successes fixture ''BBCA'' = [bbca_1, bbca_2] \<and>
   (\<exists>r \<in> set (successes fixture ''BBCA'').
      getLatestStockQuery fixture None ''BBCA'' = Some r \<and>
      (\<forall>r' \<in> set (successes fixture ''BBCA''). from_date r' \<le> from_date r)) \<and>
   getLatestStockQuery fixture None ''BBCA'' = Some bbca_2"
proof -
  have a: "successes fixture ''TLKM'' = []"
    by code_simp
  have b: "successes fixture ''BBCA'' = [bbca_1, bbca_2]"
    by code_simp
  have c: "getLatestStockQuery fixture None ''BBCA'' = Some bbca_2"
    by code_simp
  note tlkm = latest_record_or_null [where s = fixture and err = unreachable and e = "''TLKM''"]
  note bbca = latest_record_or_null [where s = fixture and err = unreachable and e = "''BBCA''"]
  have "getLatestStockQuery fixture None ''TLKM'' = None"
    and "getLatestStockQuery fixture (Some unreachable) ''TLKM'' = None"
    using tlkm a by blast+
  moreover have "\<exists>r \<in> set (successes fixture ''BBCA'').
      getLatestStockQuery fixture None ''BBCA'' = Some r \<and>
      (\<forall>r' \<in> set (successes fixture ''BBCA''). from_date r' \<le> from_date r)"
    using bbca b by (metis list.distinct(1))
  ultimately show ?thesis using a b c by (intro conjI)
qed

text \<open>
  C8. In a store whose ids and keys are unique: when the ticker has no successful record
  dated strictly before the day, \<^verbatim>\<open>updatePreviousDayRealPrice\<close> returns null and leaves the
  store as it is, whatever the store answers. When it has one, there is a single most
  recent one; if the store answers both requests, the store afterwards is the store before
  with \<open>real_harga\<close> of that record set to the price, every other field, row and table
  untouched, and the updated record is returned; if a request fails the store is unchanged.
\<close>

theorem patch_prior_day_price:
  assumes "ids_unique s" and "key_unique s"
  shows "(prior_records s e d = [] \<longrightarrow>
            outcome (updatePreviousDayRealPrice s f1 f2 e d price) = Returned None \<and>
            db (updatePreviousDayRealPrice s f1 f2 e d price) = s) \<and>
         (prior_records s e d \<noteq> [] \<longrightarrow>
            (\<exists>m \<in> set (prior_records s e d).
               (\<forall>r \<in> set (prior_records s e d). r \<noteq> m \<longrightarrow> from_date r < from_date m) \<and>
               db (updatePreviousDayRealPrice s f1 f2 e d price) =
                 (if f1 = None \<and> f2 = None
                  then s\<lparr>stock_queries :=
                          map (\<lambda>r. if r = m then r\<lparr>real_harga := Some price\<rparr> else r) (stock_queries s)\<rparr>
                  else s) \<and>
               (f1 = None \<and> f2 = None \<longrightarrow>
                  outcome (updatePreviousDayRealPrice s f1 f2 e d price)
                    = Returned (Some [m\<lparr>real_harga := Some price\<rparr>]))))"
proof (rule conjI; rule impI)
  assume "prior_records s e d = []"
  then show "outcome (updatePreviousDayRealPrice s f1 f2 e d price) = Returned None \<and>
             db (updatePreviousDayRealPrice s f1 f2 e d price) = s"
    by (rule update_none_found)
next
  let ?run = "updatePreviousDayRealPrice s f1 f2 e d price"
  let ?prior = "prior_records s e d"
  assume "?prior \<noteq> []"
  then obtain m ms where m: "latest_first ?prior = m # ms"
    by (cases "latest_first ?prior") simp_all
  note head = latest_first_head [OF m]
  have ids: "distinct (map row_id (stock_queries s))"
    using assms(1) by (simp add: ids_unique_def)
  have keys: "distinct (map (\<lambda>r. (emiten r, from_date r)) (stock_queries s))"
    using assms(2) by (simp add: key_unique_def)
  have sub: "set ?prior \<subseteq> set (stock_queries s)" and em: "\<forall>r \<in> set ?prior. emiten r = e"
    by (auto simp: prior_records_def)
  have m_row: "m \<in> set (stock_queries s)" using head sub by blast
  have strict: "\<forall>r \<in> set ?prior. r \<noteq> m \<longrightarrow> from_date r < from_date m"
  proof (intro ballI impI)
    fix r assume r: "r \<in> set ?prior" and ne: "r \<noteq> m"
    have "from_date r \<noteq> from_date m"
    proof
      assume "from_date r = from_date m"
      moreover have "emiten r = emiten m" using em r head by simp
      ultimately have "(emiten r, from_date r) = (emiten m, from_date m)" by simp
      with keys have "r = m"
        using distinct_map_eq [of "\<lambda>r. (emiten r, from_date r)" "stock_queries s" r m] r sub m_row
        by blast
      with ne show False by simp
    qed
    moreover have "from_date r \<le> from_date m" using head r by simp
    ultimately show "from_date r < from_date m" by simp
  qed
  have db: "db ?run =
      (if f1 = None \<and> f2 = None
       then s\<lparr>stock_queries :=
               map (\<lambda>r. if r = m then r\<lparr>real_harga := Some price\<rparr> else r) (stock_queries s)\<rparr>
       else s)"
  proof (cases f1)
    case (Some err)
    then show ?thesis using update_lookup_fault [of s err f2 e d price] by simp
  next
    case None
    show ?thesis
      unfolding None update_found [OF m]
      by (cases f2) (simp_all add: map_by_id [OF ids m_row])
  qed
  have out: "f1 = None \<and> f2 = None \<longrightarrow> outcome ?run = Returned (Some [m\<lparr>real_harga := Some price\<rparr>])"
    by (simp add: update_found [OF m] filter_by_id [OF ids m_row])
  from head strict db out
  show "\<exists>m \<in> set ?prior.
          (\<forall>r \<in> set ?prior. r \<noteq> m \<longrightarrow> from_date r < from_date m) \<and>
          db ?run =
            (if f1 = None \<and> f2 = None
             then s\<lparr>stock_queries :=
                     map (\<lambda>r. if r = m then r\<lparr>real_harga := Some price\<rparr> else r) (stock_queries s)\<rparr>
             else s) \<and>
          (f1 = None \<and> f2 = None \<longrightarrow> outcome ?run = Returned (Some [m\<lparr>real_harga := Some price\<rparr>]))"
    by blast
qed

theorem patch_prior_day_price_witness:
  "ids_unique fixture \<and> key_unique fixture \<and>
   prior_records fixture ''BBCA'' ''2024-01-01'' = [] \<and>
   outcome (updatePreviousDayRealPrice fixture None None ''BBCA'' ''2024-01-01'' 9000) = Returned None \<and>
   db (updatePreviousDayRealPrice fixture None None ''BBCA'' ''2024-01-01'' 9000) = fixture \<and>
   prior_records fixture ''BBCA'' ''2024-01-02'' = [bbca_1] \<and>
   db (updatePreviousDayRealPrice fixture None None ''BBCA'' ''2024-01-02'' 9000) =
     fixture\<lparr>stock_queries :=
       map (\<lambda>r. if r = bbca_1 then r\<lparr>real_harga := Some 9000\<rparr> else r) (stock_queries fixture)\<rparr> \<and>
   outcome (updatePreviousDayRealPrice fixture None None ''BBCA'' ''2024-01-02'' 9000)
     = Returned (Some [bbca_1\<lparr>real_harga := Some 9000\<rparr>])"
proof -
  have a: "ids_unique fixture" and b: "key_unique fixture"
    by code_simp+
  have c: "prior_records fixture ''BBCA'' ''2024-01-01'' = []"
    by code_simp
  have d: "prior_records fixture ''BBCA'' ''2024-01-02'' = [bbca_1]"
    by code_simp
  note none = patch_prior_day_price [OF a b, where e = "''BBCA''" and d = "''2024-01-01''"
      and ?f1.0 = None and ?f2.0 = None and price = 9000]
  note one = patch_prior_day_price [OF a b, where e = "''BBCA''" and d = "''2024-01-02''"
      and ?f1.0 = None and ?f2.0 = None and price = 9000]
  have "outcome (updatePreviousDayRealPrice fixture None None ''BBCA'' ''2024-01-01'' 9000) = Returned None"
    and "db (updatePreviousDayRealPrice fixture None None ''BBCA'' ''2024-01-01'' 9000) = fixture"
    using none c by blast+
  moreover have "db (updatePreviousDayRealPrice fixture None None ''BBCA'' ''2024-01-02'' 9000) =
     fixture\<lparr>stock_queries :=
       map (\<lambda>r. if r = bbca_1 then r\<lparr>real_harga := Some 9000\<rparr> else r) (stock_queries fixture)\<rparr>"
    and "outcome (updatePreviousDayRealPrice fixture None None ''BBCA'' ''2024-01-02'' 9000)
     = Returned (Some [bbca_1\<lparr>real_harga := Some 9000\<rparr>])"
    using one unfolding d by simp_all
  ultimately show ?thesis using a b c d by (intro conjI)
qed

text \<open>
  C6, as the code has it. When the store reports an error, the two record upserts log it
  and throw it; the session upsert throws it without logging; the update step of
  \<^verbatim>\<open>updatePreviousDayRealPrice\<close> logs it and returns null without throwing. In each case
  the store is unchanged.
\<close>

theorem write_errors:
  "saveStockQuery s (Some err) d =
     \<lparr>outcome = Thrown err, console = [(''Error saving to Supabase:'', err)], db = s\<rparr> \<and>
   saveWatchlistAnalysis s (Some err) w =
     \<lparr>outcome = Thrown err, console = [(''Error saving watchlist analysis:'', err)], db = s\<rparr> \<and>
   upsertSession s (Some err) now k v = \<lparr>outcome = Thrown err, console = [], db = s\<rparr> \<and>
   (prior_records s e date \<noteq> [] \<longrightarrow>
      (\<exists>line. updatePreviousDayRealPrice s None (Some err) e date price =
         \<lparr>outcome = Returned None, console = [(line, err)], db = s\<rparr>))"
proof (intro conjI impI)
  show "saveStockQuery s (Some err) d =
     \<lparr>outcome = Thrown err, console = [(''Error saving to Supabase:'', err)], db = s\<rparr>"
    by (simp add: saveStockQuery_def upsert_stock_queries_def failed_def)
  show "saveWatchlistAnalysis s (Some err) w =
     \<lparr>outcome = Thrown err, console = [(''Error saving watchlist analysis:'', err)], db = s\<rparr>"
    by (simp add: saveWatchlistAnalysis_def upsert_stock_queries_def failed_def)
  show "upsertSession s (Some err) now k v = \<lparr>outcome = Thrown err, console = [], db = s\<rparr>"
    by (simp add: upsertSession_def upsert_session_table_def failed_def)
next
  assume "prior_records s e date \<noteq> []"
  then obtain m ms where m: "latest_first (prior_records s e date) = m # ms"
    by (cases "latest_first (prior_records s e date)") simp_all
  show "\<exists>line. updatePreviousDayRealPrice s None (Some err) e date price =
         \<lparr>outcome = Returned None, console = [(line, err)], db = s\<rparr>"
    unfolding update_found [OF m] by simp
qed

theorem write_errors_witness:
  "prior_records fixture ''BBCA'' ''2024-01-02'' \<noteq> [] \<and>
   saveStockQuery fixture (Some unreachable) tlkm_query =
     \<lparr>outcome = Thrown unreachable, console = [(''Error saving to Supabase:'', unreachable)],
      db = fixture\<rparr> \<and>
   (\<exists>line. updatePreviousDayRealPrice fixture None (Some unreachable) ''BBCA'' ''2024-01-02'' 9000 =
      \<lparr>outcome = Returned None, console = [(line, unreachable)], db = fixture\<rparr>)"
proof -
  have a: "prior_records fixture ''BBCA'' ''2024-01-02'' \<noteq> []"
    by code_simp
  note all = write_errors [where s = fixture and err = unreachable and d = tlkm_query
      and w = bbca_analysis and now = "''2024-01-03T08:00:00.000Z''" and k = "''token''"
      and v = "''xyz''" and e = "''BBCA''" and date = "''2024-01-02''" and price = 9000]
  from all a show ?thesis by blast
qed

text \<open>
  The claim C6 as the specification words it fails twice: the session upsert throws the
  store's error but logs nothing, and the update step logs the store's error but returns
  null instead of throwing.
\<close>

theorem write_errors_counterexample:
  "upsertSession fixture (Some unreachable) ''2024-01-03T08:00:00.000Z'' ''token'' ''xyz'' =
     \<lparr>outcome = Thrown unreachable, console = [], db = fixture\<rparr> \<and>
   updatePreviousDayRealPrice fixture None (Some unreachable) ''BBCA'' ''2024-01-02'' 9000 =
     \<lparr>outcome = Returned None,
      console = [(''Error updating real_harga for BBCA on 2024-01-01:'', unreachable)],
      db = fixture\<rparr>"
  by code_simp

text \<open>
  C9. Every exported function keeps the invariant "one record per ticker and date, one
  session entry per key": the three upserts and the update by id lead from a store with
  unique keys to a store with unique keys, whatever the store answers, and the history
  function leaves the store as it is. The two single-row lookups return no store at all.
\<close>

theorem writes_keep_keys_unique:
  assumes "key_unique s"
  shows "key_unique (db (saveStockQuery s fault d)) \<and>
         key_unique (db (saveWatchlistAnalysis s fault w)) \<and>
         key_unique (db (upsertSession s fault now k v)) \<and>
         key_unique (db (updatePreviousDayRealPrice s fault fault' e date price)) \<and>
         db (getWatchlistAnalysisHistory s fault f) = s"
proof (intro conjI)
  show "key_unique (db (saveStockQuery s fault d))"
  proof (cases "stock_query_data.from_date d")
    case None
    with assms show ?thesis by (simp add: db_saveStockQuery upsert_without_date)
  next
    case (Some day)
    show ?thesis
      unfolding db_saveStockQuery Some
      by (simp, rule upsert_stock_queries_keys [OF assms]) (simp add: put_stock_query_data_def)
  qed
  show "key_unique (db (saveWatchlistAnalysis s fault w))"
    unfolding db_saveWatchlistAnalysis
    by (rule upsert_stock_queries_keys [OF assms]) (simp add: put_watchlist_analysis_def)
  show "key_unique (db (upsertSession s fault now k v))"
    unfolding db_upsertSession by (rule upsert_session_keys [OF assms])
  show "key_unique (db (updatePreviousDayRealPrice s fault fault' e date price))"
  proof -
    have "key_unique (s\<lparr>stock_queries :=
            map (\<lambda>r. if row_id r = i then r\<lparr>real_harga := Some price\<rparr> else r) (stock_queries s)\<rparr>)"
      for i
    proof -
      have same: "map (\<lambda>r. (emiten r, from_date r))
              (map (\<lambda>r. if row_id r = i then r\<lparr>real_harga := Some price\<rparr> else r) (stock_queries s))
            = map (\<lambda>r. (emiten r, from_date r)) (stock_queries s)"
        by (rule map_key_unchanged) simp
      from assms show ?thesis by (simp add: key_unique_def same del: map_map)
    qed
    with assms db_update [of s fault fault' e date price] show ?thesis by auto
  qed
  show "db (getWatchlistAnalysisHistory s fault f) = s"
    by (simp add: getWatchlistAnalysisHistory_def Let_def split: option.splits)
qed

theorem writes_keep_keys_unique_witness:
  "key_unique fixture \<and>
   key_unique (db (saveStockQuery fixture None tlkm_query)) \<and>
   key_unique (db (saveWatchlistAnalysis fixture None bbca_analysis)) \<and>
   key_unique (db (upsertSession fixture None ''2024-01-03T08:00:00.000Z'' ''token'' ''xyz'')) \<and>
   key_unique (db (updatePreviousDayRealPrice fixture None None ''BBCA'' ''2024-01-02'' 9000)) \<and>
   length (stock_queries (db (saveStockQuery fixture None tlkm_query))) = 5 \<and>
   length (stock_queries (db (saveWatchlistAnalysis fixture None bbca_analysis))) = 4 \<and>
   map session_value (session (db (upsertSession fixture None ''2024-01-03T08:00:00.000Z'' ''token'' ''xyz'')))
     = [''xyz'']"
proof -
  have a: "key_unique fixture"
    by code_simp
  have b: "length (stock_queries (db (saveStockQuery fixture None tlkm_query))) = 5"
    by code_simp
  have c: "length (stock_queries (db (saveWatchlistAnalysis fixture None bbca_analysis))) = 4"
    by code_simp
  have d: "map session_value
             (session (db (upsertSession fixture None ''2024-01-03T08:00:00.000Z'' ''token'' ''xyz'')))
           = [''xyz'']"
    by code_simp
  note all = writes_keep_keys_unique [OF a, where fault = None and fault' = None and d = tlkm_query
      and w = bbca_analysis and now = "''2024-01-03T08:00:00.000Z''" and k = "''token''"
      and v = "''xyz''" and e = "''BBCA''" and date = "''2024-01-02''" and price = 9000
      and f = no_filters]
  from all a b c d show ?thesis by blast
qed

end
